theory Spec2Isabelle
  imports Main
begin

section \<open>The DOM as the parser sees it\<close>

text \<open>
  \<open>epubcontainer.cpp\<close> reads XML through Qt's \<open>QDomDocument\<close>. A node is an element
  (tag name, namespace prefix, attributes, children), a text node, or anything else
  (comment, processing instruction). \<open>Null\<close> is the null node that \<open>toElement()\<close>
  yields for a node that is not an element. With namespace processing switched on,
  \<open>tagName()\<close> is the local name and \<open>prefix()\<close> the namespace prefix, which is how
  \<open>parseMetadataItem\<close> reads them; the fields are kept apart here.
\<close>

datatype QDomNode =
    Null
  | Element string string "(string \<times> string) list" "QDomNode list"
  | TextNode string
  | OtherNode

type_synonym QDomDocument = "QDomNode list"

fun toElement :: "QDomNode \<Rightarrow> QDomNode" where
  "toElement (Element t p a cs) = Element t p a cs"
| "toElement _ = Null"

fun tagName :: "QDomNode \<Rightarrow> string" where
  "tagName (Element t p a cs) = t"
| "tagName _ = []"

fun prefix :: "QDomNode \<Rightarrow> string" where
  "prefix (Element t p a cs) = p"
| "prefix _ = []"

fun attributes :: "QDomNode \<Rightarrow> (string \<times> string) list" where
  "attributes (Element t p a cs) = a"
| "attributes _ = []"

fun childNodes :: "QDomNode \<Rightarrow> QDomNode list" where
  "childNodes (Element t p a cs) = cs"
| "childNodes _ = []"

text \<open>\<open>attribute(name)\<close> gives the empty string when the attribute is not there.\<close>

definition attribute :: "QDomNode \<Rightarrow> string \<Rightarrow> string" where
  "attribute n name = (case map_of (attributes n) name of None \<Rightarrow> [] | Some v \<Rightarrow> v)"

text \<open>\<open>QDomElement::text()\<close>: the text of all text nodes below the element, in order.\<close>

fun text_of :: "QDomNode \<Rightarrow> string" where
  "text_of (Element t p a cs) = concat (map text_of cs)"
| "text_of (TextNode t) = t"
| "text_of _ = []"

text \<open>
  \<open>elementsByTagName\<close> lists the descendant elements with the given tag name in
  document order (preorder), the node itself excluded.
\<close>

fun subtreeByTagName :: "string \<Rightarrow> QDomNode \<Rightarrow> QDomNode list" where
  "subtreeByTagName name (Element t p a cs) =
     (if t = name then [Element t p a cs] else []) @ concat (map (subtreeByTagName name) cs)"
| "subtreeByTagName name _ = []"

definition elementsByTagName :: "QDomNode list \<Rightarrow> string \<Rightarrow> QDomNode list" where
  "elementsByTagName cs name = concat (map (subtreeByTagName name) cs)"

text \<open>
  \<open>parseToc\<close> walks siblings. An element handle that can do so is the element
  followed by its later siblings; the empty list is the null element.
\<close>

type_synonym QDomElement = "QDomNode list"

definition isNull :: "QDomElement \<Rightarrow> bool" where
  "isNull e = (e = [])"

definition node :: "QDomElement \<Rightarrow> QDomNode" where
  "node e = (case e of [] \<Rightarrow> Null | n # _ \<Rightarrow> n)"

definition isElementNamed :: "string \<Rightarrow> QDomNode \<Rightarrow> bool" where
  "isElementNamed name n = (case n of Element t p a cs \<Rightarrow> t = name | _ \<Rightarrow> False)"

definition firstChildElement :: "QDomElement \<Rightarrow> string \<Rightarrow> QDomElement" where
  "firstChildElement e name = dropWhile (\<lambda>n. \<not> isElementNamed name n) (childNodes (node e))"

definition nextSiblingElement :: "QDomElement \<Rightarrow> string \<Rightarrow> QDomElement" where
  "nextSiblingElement e name = dropWhile (\<lambda>n. \<not> isElementNamed name n) (tl e)"

definition documentElement :: "QDomDocument \<Rightarrow> QDomElement" where
  "documentElement d = (case filter (\<lambda>n. toElement n \<noteq> Null) d of [] \<Rightarrow> [] | n # _ \<Rightarrow> [n])"

text \<open>
  \<open>QDomDocument::setContent\<close> is Qt's XML parser and is taken as a parameter: from the
  namespace-processing flag and the text it gives the success flag and the document
  it leaves behind.
\<close>

type_synonym xml_parser = "bool \<Rightarrow> string \<Rightarrow> bool \<times> QDomDocument"

section \<open>The archive\<close>

text \<open>
  What the code asks of QuaZip: whether the archive opens, the list of entry names,
  and, for a name, the bytes of the entry when \<open>setCurrentFile\<close> followed by
  \<open>open(ReadOnly)\<close> succeeds.
\<close>

record archive =
  opens :: bool
  getFileNameList :: "string list"
  readAll :: "string \<Rightarrow> string option"

section \<open>The container's state\<close>

record EPubItem =
  mimetype :: string
  path :: string

record EPubPageReference =
  target :: string
  title :: string

datatype StandardType =
    CoverPage | TitlePage | TableOfContents | Index | Glossary | Acknowledgements
  | Bibliography | Colophon | CopyrightPage | Dedication | Epigraph | Foreword
  | ListOfIllustrations | ListOfTables | Notes | Preface | Text | Other

record EPubNavPoint =
  classname :: string
  id_np :: string
  label :: string
  src :: string

record EPubToc =
  version :: string
  xmlns :: string
  xml_lang :: string
  title_toc :: string
  metadata_toc :: "string \<rightharpoonup> string"
  navmap :: "int \<rightharpoonup> EPubNavPoint"

text \<open>
  \<open>emit errorHappened(...)\<close> and \<open>QLOG_WARN(...)\<close> are recorded in order. An event
  holds the message template and its string arguments; numeric arguments (a line
  number, a zip error code) are left out.
\<close>

datatype event = ErrorHappened string "string list" | Warn string "string list"

record EPubContainer =
  m_filename :: string
  m_metadata :: "string \<rightharpoonup> string"
  m_othermetatags :: "string \<rightharpoonup> (string \<rightharpoonup> string)"
  m_items :: "string \<rightharpoonup> EPubItem"
  m_orderedItems :: "string list"
  m_unorderedItems :: "string set"
  m_standardReferences :: "StandardType \<rightharpoonup> EPubPageReference"
  m_otherReferences :: "string \<rightharpoonup> EPubPageReference"
  m_toc :: EPubToc
  events :: "event list"


definition EPubToc_new :: EPubToc where
  "EPubToc_new = \<lparr>version = [], xmlns = [], xml_lang = [], title_toc = [],
     metadata_toc = Map.empty, navmap = Map.empty\<rparr>"

text \<open>The state the constructor leaves.\<close>

definition EPubContainer_new :: EPubContainer where
  "EPubContainer_new = \<lparr>m_filename = [], m_metadata = Map.empty, m_othermetatags = Map.empty,
     m_items = Map.empty, m_orderedItems = [], m_unorderedItems = {},
     m_standardReferences = Map.empty, m_otherReferences = Map.empty,
     m_toc = EPubToc_new, events = []\<rparr>"

definition errorHappened :: "string \<Rightarrow> string list \<Rightarrow> EPubContainer \<Rightarrow> EPubContainer" where
  "errorHappened msg args s = s\<lparr>events := events s @ [ErrorHappened msg args]\<rparr>"

definition QLOG_WARN :: "string \<Rightarrow> string list \<Rightarrow> EPubContainer \<Rightarrow> EPubContainer" where
  "QLOG_WARN msg args s = s\<lparr>events := events s @ [Warn msg args]\<rparr>"

definition MIMETYPE_FILE :: string where "MIMETYPE_FILE = ''mimetype''"
definition CONTAINER_FILE :: string where "CONTAINER_FILE = ''META-INF/container.xml''"
definition TOC_FILE :: string where "TOC_FILE = ''toc.ncx''"

section \<open>Guide references\<close>

definition typeFromString :: "string \<Rightarrow> StandardType" where
  "typeFromString name =
    (if name = ''cover'' then CoverPage
     else if name = ''title-page'' then TitlePage
     else if name = ''toc'' then TableOfContents
     else if name = ''index'' then Index
     else if name = ''glossary'' then Glossary
     else if name = ''acknowledgements'' then Acknowledgements
     else if name = ''bibliography'' then Bibliography
     else if name = ''colophon'' then Colophon
     else if name = ''copyright-page'' then CopyrightPage
     else if name = ''dedication'' then Dedication
     else if name = ''epigraph'' then Epigraph
     else if name = ''foreword'' then Foreword
     else if name = ''loi'' then ListOfIllustrations
     else if name = ''lot'' then ListOfTables
     else if name = ''notes'' then Notes
     else if name = ''preface'' then Preface
     else if name = ''text'' then Text
     else Other)"

definition parseGuideItem :: "QDomNode \<Rightarrow> EPubContainer \<Rightarrow> bool \<times> EPubContainer" where
  "parseGuideItem guideItem s =
    (let guideElement = toElement guideItem;
         tgt = attribute guideElement ''href'';
         ttl = attribute guideElement ''title'';
         type = attribute guideElement ''type''
     in if tgt = [] \<or> ttl = [] \<or> type = []
        then (False, QLOG_WARN ''Invalid guide item %1 %2 %3'' [tgt, ttl, type] s)
        else
          (let reference = \<lparr>target = tgt, title = ttl\<rparr>;
               standardType = typeFromString type
           in if standardType = Other
              then (True, s\<lparr>m_otherReferences := (m_otherReferences s)(type \<mapsto> reference)\<rparr>)
              else (True, s\<lparr>m_standardReferences :=
                             (m_standardReferences s)(standardType \<mapsto> reference)\<rparr>)))"

section \<open>Qt string helpers\<close>

text \<open>
  \<open>QString::lastIndexOf\<close> gives the index of the last occurrence, or \<open>-1\<close>;
  \<open>QString::left(n)\<close> the first \<open>n\<close> characters.
\<close>

fun lastIndexOf :: "char \<Rightarrow> string \<Rightarrow> int" where
  "lastIndexOf c [] = -1"
| "lastIndexOf c (x # xs) =
     (let r = lastIndexOf c xs in if 0 \<le> r then r + 1 else if x = c then 0 else -1)"

definition left :: "int \<Rightarrow> string \<Rightarrow> string" where
  "left n str = take (nat n) str"

text \<open>
  \<open>QDir::cleanPath\<close> is Qt library code. Its documented behaviour on paths with
  \<open>/\<close> separators: the empty path stays empty; empty and \<open>.\<close> segments go; a segment
  followed by \<open>..\<close> goes together with it; a trailing slash goes; a relative path with
  nothing left is \<open>.\<close>.
\<close>

fun splitSep :: "char \<Rightarrow> string \<Rightarrow> string list" where
  "splitSep c [] = [[]]"
| "splitSep c (x # xs) =
     (if x = c then [] # splitSep c xs
      else (case splitSep c xs of [] \<Rightarrow> [[x]] | r # rs \<Rightarrow> (x # r) # rs))"

fun joinWith :: "string \<Rightarrow> string list \<Rightarrow> string" where
  "joinWith sep [] = []"
| "joinWith sep [x] = x"
| "joinWith sep (x # y # ys) = x @ sep @ joinWith sep (y # ys)"

definition normSegment :: "string \<Rightarrow> string list \<Rightarrow> string list" where
  "normSegment seg st =
     (if seg = ''..'' \<and> st \<noteq> [] \<and> hd st \<noteq> ''..'' then tl st else seg # st)"

definition cleanPath :: "string \<Rightarrow> string" where
  "cleanPath p =
     (if p = [] then []
      else
        (let segs = filter (\<lambda>sg. sg \<noteq> [] \<and> sg \<noteq> ''.'') (splitSep CHR ''/'' p);
             body = joinWith ''/'' (rev (fold normSegment segs []))
         in if hd p = CHR ''/'' then CHR ''/'' # body
            else if body = [] then ''.'' else body))"

text \<open>
  \<open>QString::toInt\<close> is Qt library code. Its documented behaviour in base 10: white
  space around the number is ignored, one sign is allowed, and the result is \<open>0\<close>
  when the conversion fails or the value does not fit a 32-bit \<open>int\<close>. White space
  is what \<open>QChar::isSpace\<close> accepts: the space, the characters \<open>0x09\<close> to \<open>0x0D\<close>,
  \<open>0x85\<close> and \<open>0xA0\<close>, and separators beyond \<open>0xFF\<close>, which the 8-bit characters
  of this model do not reach.
\<close>

definition isSpace :: "char \<Rightarrow> bool" where
  "isSpace c = (c \<in> set [CHR '' '', CHR 0x09, CHR 0x0A, CHR 0x0B, CHR 0x0C, CHR 0x0D,
     CHR 0x85, CHR 0xA0])"

definition isDigit :: "char \<Rightarrow> bool" where
  "isDigit c = (c \<in> set ''0123456789'')"

definition digitsValue :: "string \<Rightarrow> int" where
  "digitsValue ds = foldl (\<lambda>acc c. 10 * acc + (of_char c - 48)) 0 ds"

definition trimmed :: "string \<Rightarrow> string" where
  "trimmed str = rev (dropWhile isSpace (rev (dropWhile isSpace str)))"

definition toInt :: "string \<Rightarrow> int" where
  "toInt str =
     (let t = trimmed str;
          neg = (t \<noteq> [] \<and> hd t = CHR ''-'');
          ds = (if t \<noteq> [] \<and> (hd t = CHR ''-'' \<or> hd t = CHR ''+'') then tl t else t)
      in if ds = [] \<or> \<not> list_all isDigit ds then 0
         else
           (let v = (if neg then - digitsValue ds else digitsValue ds)
            in if - 2147483648 \<le> v \<and> v \<le> 2147483647 then v else 0))"

section \<open>Metadata\<close>

text \<open>
  \<open>QMap::value(key)\<close> gives the empty string for an absent key; the non-const
  \<open>QMap::operator[]\<close> inserts the empty string under an absent key when it is read.
\<close>

definition value_or_empty :: "(string \<rightharpoonup> string) \<Rightarrow> string \<Rightarrow> string" where
  "value_or_empty m k = (case m k of None \<Rightarrow> [] | Some v \<Rightarrow> v)"

definition subscript :: "(string \<rightharpoonup> string) \<Rightarrow> string \<Rightarrow> (string \<rightharpoonup> string)" where
  "subscript m k = (case m k of None \<Rightarrow> m(k \<mapsto> []) | Some v \<Rightarrow> m)"

definition metadata :: "EPubContainer \<Rightarrow> string \<Rightarrow> string" where
  "metadata s key = value_or_empty (m_metadata s) key"

definition setMetadata :: "string \<Rightarrow> string \<Rightarrow> EPubContainer \<Rightarrow> EPubContainer" where
  "setMetadata key val s = s\<lparr>m_metadata := (m_metadata s)(key \<mapsto> val)\<rparr>"

text \<open>The end of \<open>parseMetadataItem\<close>, from the emptiness check on, shared by its branches.\<close>

definition storeMetadataItem ::
  "(string \<times> string) list \<Rightarrow> string \<Rightarrow> string \<Rightarrow> EPubContainer \<Rightarrow> bool \<times> EPubContainer" where
  "storeMetadataItem nodeMap metaName metaValue s =
     (if metaName = [] \<or> metaValue = [] then (False, s)
      else
        (let s1 = s\<lparr>m_metadata := (m_metadata s)(metaName \<mapsto> metaValue)\<rparr>
         in if nodeMap \<noteq> []
            then (True, s1\<lparr>m_othermetatags := (m_othermetatags s1)
                    (metaName \<mapsto> fold (\<lambda>(k, v) m. m(k \<mapsto> v)) nodeMap Map.empty)\<rparr>)
            else (True, s1)))"

definition parseMetadataItem :: "QDomNode \<Rightarrow> EPubContainer \<Rightarrow> bool \<times> EPubContainer" where
  "parseMetadataItem metadataNode s =
     (let metadataElement = toElement metadataNode;
          tag = tagName metadataElement;
          nodeMap = attributes metadataElement
      in if tag = ''meta''
         then storeMetadataItem nodeMap (attribute metadataElement ''name'')
                (attribute metadataElement ''content'') s
         else if prefix metadataElement \<noteq> ''dc''
         then (False, QLOG_WARN ''Unsupported metadata tag %1'' [tag] s)
         else if tag = ''date''
         then storeMetadataItem nodeMap (attribute metadataElement ''event'')
                (text_of metadataElement) s
         else if tag = ''creator''
         then
           (let s1 = s\<lparr>m_metadata := subscript (m_metadata s) ''creator''\<rparr>
            in if value_or_empty (m_metadata s1) ''creator'' = []
               then storeMetadataItem nodeMap tag (text_of metadataElement) s1
               else storeMetadataItem nodeMap tag
                      (value_or_empty (m_metadata s1) ''creator'' @ ''; '' @ text_of metadataElement) s1)
         else storeMetadataItem nodeMap tag (text_of metadataElement) s)"

section \<open>Manifest and spine\<close>

definition documentTypes :: "string set" where
  "documentTypes = {''text/x-oeb1-document'', ''application/x-dtbook+xml'', ''application/xhtml+xml''}"

definition parseManifestItem :: "QDomNode \<Rightarrow> string \<Rightarrow> EPubContainer \<Rightarrow> bool \<times> EPubContainer" where
  "parseManifestItem manifestNode currentFolder s =
     (let manifestElement = toElement manifestNode;
          ident = attribute manifestElement ''id'';
          href = attribute manifestElement ''href'';
          type = attribute manifestElement ''media-type''
      in if ident = [] \<or> href = []
         then (False, QLOG_WARN ''Invalid item at line %1'' [] s)
         else
           (let item = \<lparr>mimetype = type, path = cleanPath (currentFolder @ href)\<rparr>;
                s1 = s\<lparr>m_items := (m_items s)(ident \<mapsto> item)\<rparr>
            in if type \<in> documentTypes
               then (True, s1\<lparr>m_unorderedItems := insert ident (m_unorderedItems s1)\<rparr>)
               else (True, s1)))"

definition parseSpineItem :: "QDomNode \<Rightarrow> EPubContainer \<Rightarrow> bool \<times> EPubContainer" where
  "parseSpineItem spineNode s =
     (let spineElement = toElement spineNode;
          referenceName = attribute spineElement ''idref''
      in if referenceName = []
         then (False, QLOG_WARN ''Invalid spine item at line %1'' [] s)
         else if m_items s referenceName = None
         then (False, QLOG_WARN ''Unable to find %1 in items'' [referenceName] s)
         else (True, s\<lparr>m_unorderedItems := m_unorderedItems s - {referenceName},
                       m_orderedItems := m_orderedItems s @ [referenceName]\<rparr>))"

section \<open>The package document\<close>

text \<open>A \<open>for\<close> loop that calls a sub-parser on each node and drops its result.\<close>

definition forEach :: "('a \<Rightarrow> 's \<Rightarrow> bool \<times> 's) \<Rightarrow> 'a list \<Rightarrow> 's \<Rightarrow> 's" where
  "forEach f xs s = fold (\<lambda>x st. snd (f x st)) xs s"

definition contentFileFolder :: "string \<Rightarrow> string" where
  "contentFileFolder filepath =
     (let separatorIndex = lastIndexOf CHR ''/'' filepath
      in if separatorIndex > 0 then left (separatorIndex + 1) filepath else [])"

definition parseMetadataNodes :: "QDomDocument \<Rightarrow> EPubContainer \<Rightarrow> EPubContainer" where
  "parseMetadataNodes document s =
     fold (\<lambda>metadataNode. forEach parseMetadataItem (childNodes metadataNode))
       (elementsByTagName document ''metadata'') s"

definition parseManifestNodes :: "QDomDocument \<Rightarrow> string \<Rightarrow> EPubContainer \<Rightarrow> EPubContainer" where
  "parseManifestNodes document folder s =
     fold (\<lambda>manifestNode. forEach (\<lambda>n. parseManifestItem n folder)
              (elementsByTagName (childNodes (toElement manifestNode)) ''item''))
       (elementsByTagName document ''manifest'') s"

definition parseSpineNode :: "QDomNode \<Rightarrow> EPubContainer \<Rightarrow> EPubContainer" where
  "parseSpineNode spineNode s =
     (let spineElement = toElement spineNode;
          tocId = attribute spineElement ''toc'';
          s1 = (if tocId \<noteq> [] \<and> m_items s tocId \<noteq> None
                then s\<lparr>m_standardReferences := (m_standardReferences s)
                        (TableOfContents \<mapsto> \<lparr>target = tocId, title = ''Table of Contents''\<rparr>)\<rparr>
                else s)
      in forEach parseSpineItem (elementsByTagName (childNodes spineElement) ''itemref'') s1)"

definition parseSpineNodes :: "QDomDocument \<Rightarrow> EPubContainer \<Rightarrow> EPubContainer" where
  "parseSpineNodes document s = fold parseSpineNode (elementsByTagName document ''spine'') s"

definition parseGuideNodes :: "QDomDocument \<Rightarrow> EPubContainer \<Rightarrow> EPubContainer" where
  "parseGuideNodes document s =
     fold (\<lambda>guideNode. forEach parseGuideItem
              (elementsByTagName (childNodes (toElement guideNode)) ''reference''))
       (elementsByTagName document ''guide'') s"

definition parseContentFile ::
  "xml_parser \<Rightarrow> archive \<Rightarrow> string \<Rightarrow> EPubContainer \<Rightarrow> bool \<times> EPubContainer" where
  "parseContentFile setContent ar filepath s =
     (case readAll ar filepath of
        None \<Rightarrow>
          (False, errorHappened ''Malformed metadata, unable to get content metadata path'' [] s)
      | Some content \<Rightarrow>
          (let document = snd (setContent True content);
               s1 = parseMetadataNodes document s;
               s2 = parseManifestNodes document (contentFileFolder filepath) s1;
               s3 = parseSpineNodes document s2;
               s4 = parseGuideNodes document s3
           in (True, s4)))"

section \<open>The pipeline stages\<close>

definition parseMimetype :: "archive \<Rightarrow> string list \<Rightarrow> EPubContainer \<Rightarrow> bool \<times> EPubContainer" where
  "parseMimetype ar files s =
     (if MIMETYPE_FILE \<in> set files
      then (case readAll ar MIMETYPE_FILE of
              None \<Rightarrow> (False, errorHappened ''Unable to open mimetype file'' [] s)
            | Some mt \<Rightarrow>
                (True, if mt \<noteq> ''application/epub+zip''
                       then errorHappened ''Unexpected mimetype %1'' [mt] s else s))
      else (False, errorHappened ''Unable to find mimetype in file'' [] s))"

text \<open>The loop of \<open>parseContainer\<close> over the \<open>rootfile\<close> elements, with what follows it.\<close>

fun rootfileLoop ::
  "xml_parser \<Rightarrow> archive \<Rightarrow> QDomNode list \<Rightarrow> EPubContainer \<Rightarrow> bool \<times> EPubContainer" where
  "rootfileLoop setContent ar [] s =
     (False, errorHappened ''Unable to find and use any content files'' [] s)"
| "rootfileLoop setContent ar (rootNode # rootNodes) s =
     (let rootfilePath = attribute (toElement rootNode) ''full-path''
      in if rootfilePath = []
         then rootfileLoop setContent ar rootNodes (QLOG_WARN ''Invalid root file entry'' [] s)
         else (case parseContentFile setContent ar rootfilePath s of
                 (True, s1) \<Rightarrow> (True, s1)
               | (False, s1) \<Rightarrow> rootfileLoop setContent ar rootNodes s1))"

definition parseContainer ::
  "xml_parser \<Rightarrow> archive \<Rightarrow> string list \<Rightarrow> EPubContainer \<Rightarrow> bool \<times> EPubContainer" where
  "parseContainer setContent ar files s =
     (if CONTAINER_FILE \<in> set files
      then (case readAll ar CONTAINER_FILE of
              None \<Rightarrow> (False, errorHappened ''Unable to open container file error %1'' [] s)
            | Some container \<Rightarrow>
                rootfileLoop setContent ar
                  (elementsByTagName (snd (setContent False container)) ''rootfile'') s)
      else (False, errorHappened ''Unable to find container information'' [] s))"

section \<open>The table of contents\<close>

text \<open>
  The loop over the \<open>meta\<close> elements of \<open>head\<close> advances with
  \<open>head.nextSiblingElement("navPoint")\<close>. That element does not change from one round
  to the next, so the loop need not end: no result is \<open>None\<close>.
\<close>

partial_function (option) metaLoop ::
  "QDomElement \<Rightarrow> QDomElement \<Rightarrow> (string \<rightharpoonup> string) \<Rightarrow> (string \<rightharpoonup> string) option" where
  "metaLoop head meta md =
     (if isNull meta then Some md
      else metaLoop head (nextSiblingElement head ''navPoint'')
             (md(attribute (node meta) ''name'' \<mapsto> attribute (node meta) ''content'')))"

definition makeNavPoint :: "QDomElement \<Rightarrow> EPubNavPoint" where
  "makeNavPoint navPoint =
     \<lparr>classname = attribute (node navPoint) ''class'',
      id_np = attribute (node navPoint) ''id'',
      label = text_of (node (firstChildElement navPoint ''navLabel'')),
      src = attribute (node (firstChildElement navPoint ''content'')) ''src''\<rparr>"

function navLoop :: "QDomElement \<Rightarrow> (int \<rightharpoonup> EPubNavPoint) \<Rightarrow> (int \<rightharpoonup> EPubNavPoint)" where
  "navLoop navPoint nm =
     (if isNull navPoint then nm
      else navLoop (nextSiblingElement navPoint ''navPoint'')
             (nm(toInt (attribute (node navPoint) ''playOrder'') \<mapsto> makeNavPoint navPoint)))"
  by pat_completeness auto
termination
proof (relation "measure (\<lambda>(navPoint, nm). length navPoint)")
  fix navPoint :: QDomElement and nm :: "int \<rightharpoonup> EPubNavPoint"
  assume "\<not> isNull navPoint"
  then obtain n ns where "navPoint = n # ns"
    by (cases navPoint) (auto simp: isNull_def)
  moreover have "length (dropWhile (\<lambda>n. \<not> isElementNamed ''navPoint'' n) ns) \<le> length ns"
    by (rule length_dropWhile_le)
  ultimately show "((nextSiblingElement navPoint ''navPoint'',
      nm(toInt (attribute (node navPoint) ''playOrder'') \<mapsto> makeNavPoint navPoint)), navPoint, nm)
    \<in> measure (\<lambda>(navPoint, nm). length navPoint)"
    by (simp add: nextSiblingElement_def)
qed simp

declare navLoop.simps [simp del]

definition parseToc ::
  "xml_parser \<Rightarrow> archive \<Rightarrow> string list \<Rightarrow> EPubContainer \<Rightarrow> (bool \<times> EPubContainer) option" where
  "parseToc setContent ar files s =
     (if TOC_FILE \<in> set files
      then (case readAll ar TOC_FILE of
              None \<Rightarrow> Some (False, errorHappened ''Unable to open container file error %1'' [] s)
            | Some content \<Rightarrow>
                (case setContent False content of
                   (False, document) \<Rightarrow> Some (True, s)
                 | (True, document) \<Rightarrow>
                     (let rootNode = documentElement document;
                          toc1 = (m_toc s)\<lparr>version := attribute (node rootNode) ''version'',
                                           xmlns := attribute (node rootNode) ''xmlns'',
                                           xml_lang := attribute (node rootNode) ''xml:lang''\<rparr>;
                          head = firstChildElement rootNode ''head'';
                          meta = firstChildElement head ''meta''
                      in case metaLoop head meta (metadata_toc toc1) of
                           None \<Rightarrow> None
                         | Some md \<Rightarrow>
                             (let titleNode = firstChildElement rootNode ''docTitle'';
                                  toc2 = toc1\<lparr>metadata_toc := md,
                                              title_toc := text_of (node titleNode)\<rparr>;
                                  navMap = firstChildElement rootNode ''navMap'';
                                  navPoint = firstChildElement navMap ''navPoint''
                              in Some (True, s\<lparr>m_toc :=
                                   toc2\<lparr>navmap := navLoop navPoint (navmap toc2)\<rparr>\<rparr>)))))
      else Some (True, s))"

section \<open>Opening a file\<close>

text \<open>\<open>ar\<close> is the zip archive found at \<open>path\<close>.\<close>

definition openFile ::
  "xml_parser \<Rightarrow> archive \<Rightarrow> string \<Rightarrow> EPubContainer \<Rightarrow> (bool \<times> EPubContainer) option" where
  "openFile setContent ar filename s =
     (let s0 = s\<lparr>m_filename := filename\<rparr>
      in if \<not> opens ar then Some (False, errorHappened ''Failed to open %1'' [filename] s0)
         else
           (let files = getFileNameList ar
            in if files = [] then Some (False, errorHappened ''Failed to read %1'' [filename] s0)
               else (case parseMimetype ar files s0 of
                       (False, s1) \<Rightarrow> Some (False, s1)
                     | (True, s1) \<Rightarrow>
                         (case parseContainer setContent ar files s1 of
                            (False, s2) \<Rightarrow> Some (False, s2)
                          | (True, s2) \<Rightarrow>
                              (case parseToc setContent ar files s2 of
                                 None \<Rightarrow> None
                               | Some (False, s3) \<Rightarrow> Some (False, s3)
                               | Some (True, s3) \<Rightarrow> Some (True, s3))))))"

section \<open>Names used in the statements\<close>

text \<open>The seventeen type strings that \<open>typeFromString\<close> knows.\<close>

definition standardNames :: "string list" where
  "standardNames = [''cover'', ''title-page'', ''toc'', ''index'', ''glossary'', ''acknowledgements'',
     ''bibliography'', ''colophon'', ''copyright-page'', ''dedication'', ''epigraph'', ''foreword'',
     ''loi'', ''lot'', ''notes'', ''preface'', ''text'']"

text \<open>The \<open>full-path\<close> attributes of the \<open>rootfile\<close> elements of a container document, in document order.\<close>

definition rootfilePaths :: "QDomDocument \<Rightarrow> string list" where
  "rootfilePaths document =
     map (\<lambda>n. attribute (toElement n) ''full-path'') (elementsByTagName document ''rootfile'')"

text \<open>A candidate path that \<open>parseContainer\<close> can use: not empty, and its entry opens.\<close>

definition usable :: "archive \<Rightarrow> string \<Rightarrow> bool" where
  "usable ar p = (p \<noteq> [] \<and> readAll ar p \<noteq> None)"

text \<open>What passing over a candidate leaves in the log: a warning for an empty path, the error of \<open>parseContentFile\<close> for an entry that does not open.\<close>

definition skipEvent :: "string \<Rightarrow> event" where
  "skipEvent p =
     (if p = [] then Warn ''Invalid root file entry'' []
      else ErrorHappened ''Malformed metadata, unable to get content metadata path'' [])"

text \<open>The state after the candidates before the first usable one have been passed over.\<close>

definition skipped :: "archive \<Rightarrow> string list \<Rightarrow> EPubContainer \<Rightarrow> EPubContainer" where
  "skipped ar paths s =
     s\<lparr>events := events s @ map skipEvent (takeWhile (\<lambda>p. \<not> usable ar p) paths)\<rparr>"

text \<open>The \<open>item\<close> elements that the manifest loop of \<open>parseContentFile\<close> visits, in the order it visits them.\<close>

definition manifestItems :: "QDomDocument \<Rightarrow> QDomNode list" where
  "manifestItems document =
     concat (map (\<lambda>manifestNode. elementsByTagName (childNodes (toElement manifestNode)) ''item'')
       (elementsByTagName document ''manifest''))"

text \<open>The \<open>itemref\<close> elements that the spine loop of \<open>parseContentFile\<close> visits, in the order it visits them.\<close>

definition spineItemrefs :: "QDomDocument \<Rightarrow> QDomNode list" where
  "spineItemrefs document =
     concat (map (\<lambda>spineNode. elementsByTagName (childNodes (toElement spineNode)) ''itemref'')
       (elementsByTagName document ''spine''))"

text \<open>A manifest item that \<open>parseManifestItem\<close> accepts.\<close>

definition validItem :: "QDomNode \<Rightarrow> bool" where
  "validItem n = (attribute (toElement n) ''id'' \<noteq> [] \<and> attribute (toElement n) ''href'' \<noteq> [])"

text \<open>The registry entry that \<open>parseManifestItem\<close> makes of an accepted item.\<close>

definition itemOf :: "string \<Rightarrow> QDomNode \<Rightarrow> EPubItem" where
  "itemOf folder n = \<lparr>mimetype = attribute (toElement n) ''media-type'',
     path = cleanPath (folder @ attribute (toElement n) ''href'')\<rparr>"

text \<open>The \<open>idref\<close> attribute that \<open>parseSpineItem\<close> reads.\<close>

definition idref :: "QDomNode \<Rightarrow> string" where
  "idref n = attribute (toElement n) ''idref''"

text \<open>The idrefs that \<open>parseSpineItem\<close> accepts against a registry: not empty and registered.\<close>

definition resolved :: "(string \<rightharpoonup> EPubItem) \<Rightarrow> QDomNode list \<Rightarrow> string list" where
  "resolved items ns = filter (\<lambda>r. r \<noteq> [] \<and> items r \<noteq> None) (map idref ns)"

text \<open>The registry after the manifest loop, as a function of the registry before it.\<close>

definition manifestMap ::
  "string \<Rightarrow> QDomNode list \<Rightarrow> (string \<rightharpoonup> EPubItem) \<Rightarrow> (string \<rightharpoonup> EPubItem)" where
  "manifestMap folder ns items =
     fold (\<lambda>n m. if validItem n then m(attribute (toElement n) ''id'' \<mapsto> itemOf folder n) else m)
       ns items"

text \<open>The ids of the accepted manifest items of a package document.\<close>

definition manifestIds :: "QDomDocument \<Rightarrow> string set" where
  "manifestIds document =
     set (map (\<lambda>n. attribute (toElement n) ''id'') (filter validItem (manifestItems document)))"

text \<open>The unordered set after the manifest loop, as a function of the set before it.\<close>

definition manifestUnordered :: "QDomNode list \<Rightarrow> string set \<Rightarrow> string set" where
  "manifestUnordered ns ids =
     fold (\<lambda>n u. if validItem n \<and> attribute (toElement n) ''media-type'' \<in> documentTypes
                  then insert (attribute (toElement n) ''id'') u else u) ns ids"


text \<open>The \<open>navPoint\<close> children of a \<open>navMap\<close> element, which the second loop of \<open>parseToc\<close> visits.\<close>

definition navPoints :: "QDomElement \<Rightarrow> QDomNode list" where
  "navPoints navMap = filter (isElementNamed ''navPoint'') (childNodes (node navMap))"

text \<open>The key and the NavPoint that the loop stores for one \<open>navPoint\<close> element.\<close>

definition navEntry :: "QDomNode \<Rightarrow> int \<times> EPubNavPoint" where
  "navEntry np = (toInt (attribute np ''playOrder''), makeNavPoint [np])"

section \<open>Example inputs\<close>

text \<open>
  Documents as the XML parser would deliver them, a parser that knows each of them by
  a placeholder text, and archives whose entries hold these texts. The statements
  below are evaluated on them.
\<close>

definition guide_cover :: QDomNode where
  "guide_cover = Element ''reference'' []
     [(''type'', ''cover''), (''title'', ''Cover''), (''href'', ''cover.xhtml'')] []"

definition guide_custom :: QDomNode where
  "guide_custom = Element ''reference'' []
     [(''type'', ''frontispiece''), (''title'', ''Plate''), (''href'', ''plate.xhtml'')] []"

definition guide_untitled :: QDomNode where
  "guide_untitled = Element ''reference'' [] [(''type'', ''cover''), (''href'', ''cover.xhtml'')] []"

definition meta_series :: QDomNode where
  "meta_series = Element ''meta'' [] [(''name'', ''calibre:series''), (''content'', ''Saga'')] []"

definition meta_nameless :: QDomNode where
  "meta_nameless = Element ''meta'' [] [(''content'', ''Saga'')] []"

definition dc_date :: QDomNode where
  "dc_date = Element ''date'' ''dc'' [(''event'', ''publication'')] [TextNode ''2001-05-01'']"

definition dc_title :: QDomNode where
  "dc_title = Element ''title'' ''dc'' [] [TextNode ''Emma'']"

definition dc_title_blank :: QDomNode where
  "dc_title_blank = Element ''title'' ''dc'' [] []"

definition dc_creator :: "string \<Rightarrow> QDomNode" where
  "dc_creator name = Element ''creator'' ''dc'' [] [TextNode name]"

definition opf_other :: QDomNode where
  "opf_other = Element ''x-info'' ''opf'' [] [TextNode ''ignored'']"

definition container_doc :: QDomDocument where
  "container_doc =
     [Element ''container'' [] [(''version'', ''1.0'')]
        [Element ''rootfiles'' [] []
           [Element ''rootfile'' [] [(''media-type'', ''application/oebps-package+xml'')] [],
            Element ''rootfile'' [] [(''full-path'', ''missing.opf'')] [],
            Element ''rootfile'' [] [(''full-path'', ''OEBPS/content.opf'')] [],
            Element ''rootfile'' [] [(''full-path'', ''other.opf'')] []]]]"

definition package_doc :: QDomDocument where
  "package_doc =
     [Element ''package'' [] [(''version'', ''2.0'')]
        [Element ''metadata'' [] []
           [Element ''title'' ''dc'' [] [TextNode ''Emma''],
            Element ''creator'' ''dc'' [] [TextNode ''A''],
            Element ''creator'' ''dc'' [] [TextNode ''B'']],
         Element ''manifest'' [] []
           [Element ''item'' [] [(''id'', ''ch1''), (''href'', ''chap1.xhtml''),
              (''media-type'', ''application/xhtml+xml'')] [],
            Element ''item'' [] [(''id'', ''ch2''), (''href'', ''text/../chap2.xhtml''),
              (''media-type'', ''application/xhtml+xml'')] [],
            Element ''item'' [] [(''id'', ''notes''), (''href'', ''notes.xhtml''),
              (''media-type'', ''application/xhtml+xml'')] [],
            Element ''item'' [] [(''id'', ''img''), (''href'', ''cover.png''),
              (''media-type'', ''image/png'')] [],
            Element ''item'' [] [(''href'', ''nameless.xhtml'')] []],
         Element ''spine'' [] [(''toc'', ''ncx'')]
           [Element ''itemref'' [] [(''idref'', ''ch1'')] [],
            Element ''itemref'' [] [(''idref'', ''ghost'')] [],
            Element ''itemref'' [] [] [],
            Element ''itemref'' [] [(''idref'', ''ch2''), (''linear'', ''no'')] [],
            Element ''itemref'' [] [(''idref'', ''ch1'')] []],
         Element ''guide'' [] []
           [Element ''reference'' [] [(''type'', ''cover''), (''title'', ''Cover''),
              (''href'', ''cover.xhtml'')] []]]]"

definition container_doc_unresolved :: QDomDocument where
  "container_doc_unresolved =
     [Element ''container'' [] [(''version'', ''1.0'')]
        [Element ''rootfiles'' [] []
           [Element ''rootfile'' [] [(''full-path'', ''missing.opf'')] []]]]"

definition container_doc_other_first :: QDomDocument where
  "container_doc_other_first =
     [Element ''container'' [] [(''version'', ''1.0'')]
        [Element ''rootfiles'' [] []
           [Element ''rootfile'' [] [(''full-path'', ''other.opf'')] [],
            Element ''rootfile'' [] [(''full-path'', ''OEBPS/content.opf'')] []]]]"

definition nav_two :: QDomNode where
  "nav_two = Element ''navPoint'' [] [(''id'', ''np-two''), (''playOrder'', ''2'')]
     [Element ''navLabel'' [] [] [Element ''text'' [] [] [TextNode ''Two'']],
      Element ''content'' [] [(''src'', ''chap2.xhtml'')] []]"

definition nav_one :: QDomNode where
  "nav_one = Element ''navPoint'' [] [(''id'', ''np-one''), (''playOrder'', ''1'')]
     [Element ''navLabel'' [] [] [Element ''text'' [] [] [TextNode ''One'']],
      Element ''content'' [] [(''src'', ''chap1.xhtml'')] []]"

definition nav_two_again :: QDomNode where
  "nav_two_again = Element ''navPoint'' [] [(''id'', ''np-two-again''), (''playOrder'', ''2'')]
     [Element ''navLabel'' [] [] [Element ''text'' [] [] [TextNode ''Two again'']],
      Element ''content'' [] [(''src'', ''chap2.xhtml#b'')] []]"

definition nav_first :: QDomNode where
  "nav_first = Element ''navPoint'' [] [(''id'', ''np-first''), (''playOrder'', ''first'')]
     [Element ''navLabel'' [] [] [Element ''text'' [] [] [TextNode ''Unnumbered'']],
      Element ''content'' [] [(''src'', ''front.xhtml'')] []]"

definition ncx_doc :: QDomDocument where
  "ncx_doc =
     [Element ''ncx'' [] [(''version'', ''2005-1''), (''xml:lang'', ''en'')]
        [Element ''head'' [] []
           [Element ''meta'' [] [(''name'', ''dtb:uid''), (''content'', ''urn:uuid:1'')] [],
            Element ''meta'' [] [(''name'', ''dtb:depth''), (''content'', ''1'')] []],
         Element ''docTitle'' [] [] [Element ''text'' [] [] [TextNode ''Emma'']],
         Element ''navMap'' [] [] [nav_two, nav_one, nav_two_again, nav_first]]]"

definition ncx_doc_stray :: QDomDocument where
  "ncx_doc_stray =
     [Element ''ncx'' [] [(''version'', ''2005-1'')]
        [Element ''head'' [] []
           [Element ''meta'' [] [(''name'', ''dtb:uid''), (''content'', ''urn:uuid:1'')] []],
         nav_one,
         Element ''navMap'' [] [] [nav_two]]]"

definition example_setContent :: xml_parser where
  "example_setContent namespaceProcessing content =
     (if content = ''<container/>'' then (True, container_doc)
      else if content = ''<container-unresolved/>'' then (True, container_doc_unresolved)
      else if content = ''<container-other-first/>'' then (True, container_doc_other_first)
      else if content = ''<package/>'' then (True, package_doc)
      else if content = ''<ncx/>'' then (True, ncx_doc)
      else if content = ''<ncx-stray/>'' then (True, ncx_doc_stray)
      else (False, []))"

definition example_archive :: "string \<Rightarrow> archive" where
  "example_archive mt =
     \<lparr>opens = True,
      getFileNameList = [''mimetype'', ''META-INF/container.xml'', ''OEBPS/content.opf'',
        ''other.opf''],
      readAll = map_of [(''mimetype'', mt), (''META-INF/container.xml'', ''<container/>''),
        (''OEBPS/content.opf'', ''<package/>''), (''other.opf'', ''not xml at all'')]\<rparr>"

definition archive_without_mimetype :: archive where
  "archive_without_mimetype =
     \<lparr>opens = True,
      getFileNameList = [''META-INF/container.xml'', ''OEBPS/content.opf''],
      readAll = map_of [(''META-INF/container.xml'', ''<container/>''),
        (''OEBPS/content.opf'', ''<package/>'')]\<rparr>"

definition archive_unlisted_package :: archive where
  "archive_unlisted_package =
     \<lparr>opens = True,
      getFileNameList = [''mimetype'', ''META-INF/container.xml'', ''OEBPS/content.opf''],
      readAll = map_of [(''mimetype'', ''application/epub+zip''),
        (''META-INF/container.xml'', ''<container-unresolved/>''),
        (''OEBPS/content.opf'', ''<package/>'')]\<rparr>"

definition archive_closed_container :: archive where
  "archive_closed_container =
     \<lparr>opens = True,
      getFileNameList = [''mimetype'', ''META-INF/container.xml''],
      readAll = map_of [(''mimetype'', ''application/epub+zip'')]\<rparr>"

definition archive_other_first :: archive where
  "archive_other_first =
     \<lparr>opens = True,
      getFileNameList = [''mimetype'', ''META-INF/container.xml'', ''OEBPS/content.opf'',
        ''other.opf''],
      readAll = map_of [(''mimetype'', ''application/epub+zip''),
        (''META-INF/container.xml'', ''<container-other-first/>''),
        (''OEBPS/content.opf'', ''<package/>''), (''other.opf'', ''not xml at all'')]\<rparr>"

definition example_parsed :: EPubContainer where
  "example_parsed =
     snd (parseContentFile example_setContent (example_archive ''application/epub+zip'')
       ''OEBPS/content.opf'' EPubContainer_new)"

definition item_ch1 :: QDomNode where
  "item_ch1 = Element ''item'' [] [(''id'', ''ch1''), (''href'', ''chap1.xhtml''),
     (''media-type'', ''application/xhtml+xml'')] []"

definition archive_with_toc :: archive where
  "archive_with_toc =
     \<lparr>opens = True,
      getFileNameList = [''mimetype'', ''META-INF/container.xml'', ''OEBPS/content.opf'',
        ''toc.ncx''],
      readAll = map_of [(''mimetype'', ''application/epub+zip''),
        (''META-INF/container.xml'', ''<container/>''),
        (''OEBPS/content.opf'', ''<package/>''), (''toc.ncx'', ''<ncx/>'')]\<rparr>"

definition itemref_blank :: QDomNode where
  "itemref_blank = Element ''itemref'' [] [] []"

definition itemref_ghost :: QDomNode where
  "itemref_ghost = Element ''itemref'' [] [(''idref'', ''ghost'')] []"

definition itemref_notes :: QDomNode where
  "itemref_notes = Element ''itemref'' [] [(''idref'', ''notes'')] []"

definition guide_toc :: QDomNode where
  "guide_toc = Element ''reference'' []
     [(''type'', ''toc''), (''title'', ''Contents''), (''href'', ''toc.xhtml'')] []"



section \<open>The candidate loop of parseContainer\<close>

lemma parseContentFile_unreadable:
  "readAll ar p = None \<Longrightarrow>
   parseContentFile setContent ar p s =
     (False, errorHappened ''Malformed metadata, unable to get content metadata path'' [] s)"
  by (simp add: parseContentFile_def)

lemma parseContentFile_readable:
  "readAll ar p = Some c \<Longrightarrow>
   parseContentFile setContent ar p s =
     (True, parseGuideNodes (snd (setContent True c))
        (parseSpineNodes (snd (setContent True c))
          (parseManifestNodes (snd (setContent True c)) (contentFileFolder p)
            (parseMetadataNodes (snd (setContent True c)) s))))"
  by (simp add: parseContentFile_def Let_def)

lemma parseContentFile_fst: "fst (parseContentFile setContent ar p s) = (readAll ar p \<noteq> None)"
  by (cases "readAll ar p") (simp_all add: parseContentFile_unreadable parseContentFile_readable)

lemma rootfileLoop_char:
  "rootfileLoop setContent ar ns s =
     (case List.find (usable ar) (map (\<lambda>n. attribute (toElement n) ''full-path'') ns) of
        Some p \<Rightarrow> parseContentFile setContent ar p
                   (skipped ar (map (\<lambda>n. attribute (toElement n) ''full-path'') ns) s)
      | None \<Rightarrow> (False, errorHappened ''Unable to find and use any content files'' []
                   (skipped ar (map (\<lambda>n. attribute (toElement n) ''full-path'') ns) s)))"
proof (induction ns arbitrary: s)
  case Nil
  show ?case by (simp add: skipped_def)
next
  case (Cons n ns)
  let ?p = "attribute (toElement n) ''full-path''"
  let ?ps = "map (\<lambda>n. attribute (toElement n) ''full-path'') ns"
  consider (empty) "?p = []" | (closed) "?p \<noteq> []" "readAll ar ?p = None"
    | (found) "usable ar ?p"
    by (auto simp: usable_def)
  then show ?case
  proof cases
    case empty
    then have sk: "skipped ar (?p # ?ps) s = skipped ar ?ps (QLOG_WARN ''Invalid root file entry'' [] s)"
      by (simp add: skipped_def usable_def skipEvent_def QLOG_WARN_def)
    have "rootfileLoop setContent ar (n # ns) s =
        rootfileLoop setContent ar ns (QLOG_WARN ''Invalid root file entry'' [] s)"
      using empty by (simp add: Let_def)
    also note Cons.IH
    finally show ?thesis
      using empty sk by (simp add: usable_def split: option.split)
  next
    case closed
    let ?s = "errorHappened ''Malformed metadata, unable to get content metadata path'' [] s"
    have sk: "skipped ar (?p # ?ps) s = skipped ar ?ps ?s"
      using closed by (simp add: skipped_def usable_def skipEvent_def errorHappened_def)
    have "rootfileLoop setContent ar (n # ns) s = rootfileLoop setContent ar ns ?s"
      using closed by (simp add: Let_def parseContentFile_unreadable)
    also note Cons.IH
    finally show ?thesis
      using closed sk by (simp add: usable_def split: option.split)
  next
    case found
    then obtain c where c: "?p \<noteq> []" "readAll ar ?p = Some c"
      by (auto simp: usable_def)
    have sk: "skipped ar (?p # ?ps) s = s"
      using found by (simp add: skipped_def)
    have "rootfileLoop setContent ar (n # ns) s = parseContentFile setContent ar ?p s"
      using c by (simp add: Let_def parseContentFile_readable)
    then show ?thesis
      using found sk by simp
  qed
qed

lemma parseContainer_readable:
  "CONTAINER_FILE \<in> set files \<Longrightarrow> readAll ar CONTAINER_FILE = Some c \<Longrightarrow>
   parseContainer setContent ar files s =
     (case List.find (usable ar) (rootfilePaths (snd (setContent False c))) of
        Some p \<Rightarrow> parseContentFile setContent ar p
                   (skipped ar (rootfilePaths (snd (setContent False c))) s)
      | None \<Rightarrow> (False, errorHappened ''Unable to find and use any content files'' []
                   (skipped ar (rootfilePaths (snd (setContent False c))) s)))"
  unfolding parseContainer_def rootfilePaths_def by (simp add: rootfileLoop_char)

lemma find_usable: "List.find (usable ar) ps = Some p \<Longrightarrow> readAll ar p \<noteq> None \<and> p \<noteq> []"
  by (auto simp: find_Some_iff usable_def)

section \<open>Facts about the example inputs\<close>

lemmas example_inputs = example_archive_def archive_without_mimetype_def
  archive_unlisted_package_def archive_closed_container_def archive_other_first_def
  example_setContent_def

lemma example_rootfilePaths:
  "rootfilePaths container_doc = [[], ''missing.opf'', ''OEBPS/content.opf'', ''other.opf'']"
  "rootfilePaths container_doc_unresolved = [''missing.opf'']"
  "rootfilePaths container_doc_other_first = [''other.opf'', ''OEBPS/content.opf'']"
  by (simp_all add: rootfilePaths_def elementsByTagName_def attribute_def container_doc_def
      container_doc_unresolved_def container_doc_other_first_def)

lemma parseToc_absent:
  "TOC_FILE \<notin> set files \<Longrightarrow> parseToc setContent ar files s = Some (True, s)"
  by (simp add: parseToc_def)

lemma example_archive_container_stage:
  "fst (parseContainer example_setContent (example_archive mt)
     (getFileNameList (example_archive mt)) s)"
proof -
  have "List.find (usable (example_archive mt))
      (rootfilePaths (snd (example_setContent False ''<container/>''))) = Some ''OEBPS/content.opf''"
    by (simp add: example_setContent_def example_rootfilePaths usable_def example_archive_def)
  moreover have "CONTAINER_FILE \<in> set (getFileNameList (example_archive mt))"
    "readAll (example_archive mt) CONTAINER_FILE = Some ''<container/>''"
    by (simp_all add: example_archive_def CONTAINER_FILE_def)
  ultimately have "parseContainer example_setContent (example_archive mt)
      (getFileNameList (example_archive mt)) s =
    parseContentFile example_setContent (example_archive mt) ''OEBPS/content.opf''
      (skipped (example_archive mt)
         (rootfilePaths (snd (example_setContent False ''<container/>''))) s)"
    by (simp add: parseContainer_readable)
  then show ?thesis
    by (simp add: parseContentFile_fst example_archive_def)
qed

lemma example_archive_opens:
  "\<exists>s'. openFile example_setContent (example_archive mt) filename s = Some (True, s')"
proof -
  let ?ar = "example_archive mt"
  let ?files = "getFileNameList ?ar"
  obtain b1 s1 where m: "parseMimetype ?ar ?files (s\<lparr>m_filename := filename\<rparr>) = (b1, s1)"
    by (cases "parseMimetype ?ar ?files (s\<lparr>m_filename := filename\<rparr>)")
  then have b1: b1
    by (auto simp: parseMimetype_def example_archive_def MIMETYPE_FILE_def)
  obtain b2 s2 where c: "parseContainer example_setContent ?ar ?files s1 = (b2, s2)"
    by (cases "parseContainer example_setContent ?ar ?files s1")
  with example_archive_container_stage [of mt s1] have b2: b2 by simp
  have "TOC_FILE \<notin> set ?files"
    by (simp add: example_archive_def TOC_FILE_def)
  then have t: "parseToc example_setContent ?ar ?files s2 = Some (True, s2)"
    by (rule parseToc_absent)
  have "opens ?ar" "?files \<noteq> []"
    by (simp_all add: example_archive_def)
  then have "openFile example_setContent ?ar filename s = Some (True, s2)"
    using m b1 c b2 t by (simp add: openFile_def Let_def)
  then show ?thesis by blast
qed

lemma example_package:
  "manifestIds package_doc = {''ch1'', ''ch2'', ''notes'', ''img''}"
  "map idref (spineItemrefs package_doc) = [''ch1'', ''ghost'', [], ''ch2'', ''ch1'']"
  by (auto simp: manifestIds_def manifestItems_def spineItemrefs_def elementsByTagName_def
      package_doc_def validItem_def attribute_def idref_def)

section \<open>What each phase of parseContentFile changes\<close>

lemma fold_preserves:
  assumes "\<And>x st. g (h x st) = g st"
  shows "g (fold h xs s) = g s"
  using assms by (induction xs arbitrary: s) simp_all

lemma forEach_preserves:
  assumes "\<And>x st. g (snd (f x st)) = g st"
  shows "g (forEach f xs s) = g s"
  unfolding forEach_def using assms by (rule fold_preserves)

lemma parseMetadataItem_frame:
  "m_items (snd (parseMetadataItem n s)) = m_items s"
  "m_orderedItems (snd (parseMetadataItem n s)) = m_orderedItems s"
  "m_unorderedItems (snd (parseMetadataItem n s)) = m_unorderedItems s"
  by (simp_all add: parseMetadataItem_def storeMetadataItem_def Let_def QLOG_WARN_def)

lemma parseMetadataNodes_frame:
  "m_items (parseMetadataNodes d s) = m_items s"
  "m_orderedItems (parseMetadataNodes d s) = m_orderedItems s"
  "m_unorderedItems (parseMetadataNodes d s) = m_unorderedItems s"
  unfolding parseMetadataNodes_def
  by (rule fold_preserves, rule forEach_preserves, rule parseMetadataItem_frame)+

lemma parseGuideItem_frame:
  "m_items (snd (parseGuideItem n s)) = m_items s"
  "m_orderedItems (snd (parseGuideItem n s)) = m_orderedItems s"
  "m_unorderedItems (snd (parseGuideItem n s)) = m_unorderedItems s"
  by (simp_all add: parseGuideItem_def Let_def QLOG_WARN_def)

lemma parseGuideNodes_frame:
  "m_items (parseGuideNodes d s) = m_items s"
  "m_orderedItems (parseGuideNodes d s) = m_orderedItems s"
  "m_unorderedItems (parseGuideNodes d s) = m_unorderedItems s"
  unfolding parseGuideNodes_def
  by (rule fold_preserves, rule forEach_preserves, rule parseGuideItem_frame)+

lemma fold_concat_map:
  "fold h (concat (map g xs)) s = fold (\<lambda>x. fold h (g x)) xs s"
  by (induction xs arbitrary: s) simp_all

lemma parseManifestNodes_forEach:
  "parseManifestNodes d folder s =
     forEach (\<lambda>n. parseManifestItem n folder) (manifestItems d) s"
  by (simp add: parseManifestNodes_def manifestItems_def forEach_def [abs_def] fold_concat_map)

lemma parseManifestItem_valid:
  "validItem n \<Longrightarrow>
   m_items (snd (parseManifestItem n folder s)) =
     (m_items s)(attribute (toElement n) ''id'' \<mapsto> itemOf folder n)"
  "validItem n \<Longrightarrow> m_unorderedItems (snd (parseManifestItem n folder s)) =
     (if attribute (toElement n) ''media-type'' \<in> documentTypes
      then insert (attribute (toElement n) ''id'') (m_unorderedItems s)
      else m_unorderedItems s)"
  by (simp_all add: parseManifestItem_def validItem_def itemOf_def Let_def)

lemma parseManifestItem_invalid:
  "\<not> validItem n \<Longrightarrow> m_items (snd (parseManifestItem n folder s)) = m_items s"
  "\<not> validItem n \<Longrightarrow> m_unorderedItems (snd (parseManifestItem n folder s)) = m_unorderedItems s"
  by (auto simp: parseManifestItem_def validItem_def Let_def QLOG_WARN_def)

lemma parseManifestItem_ordered:
  "m_orderedItems (snd (parseManifestItem n folder s)) = m_orderedItems s"
  by (simp add: parseManifestItem_def Let_def QLOG_WARN_def)

lemma parseSpineItem_fields:
  "m_items (snd (parseSpineItem n s)) = m_items s"
  "m_orderedItems (snd (parseSpineItem n s)) = m_orderedItems s @ resolved (m_items s) [n]"
  "m_unorderedItems (snd (parseSpineItem n s)) =
     m_unorderedItems s - set (resolved (m_items s) [n])"
  by (simp_all add: parseSpineItem_def Let_def QLOG_WARN_def resolved_def idref_def)

lemma resolved_append: "resolved items (xs @ ys) = resolved items xs @ resolved items ys"
  by (simp add: resolved_def)

lemma resolved_Cons: "resolved items (x # xs) = resolved items [x] @ resolved items xs"
  by (simp add: resolved_def)

lemma forEach_parseSpineItem:
  "m_items (forEach parseSpineItem ns s) = m_items s \<and>
   m_orderedItems (forEach parseSpineItem ns s) = m_orderedItems s @ resolved (m_items s) ns \<and>
   m_unorderedItems (forEach parseSpineItem ns s) =
     m_unorderedItems s - set (resolved (m_items s) ns)"
proof (induction ns arbitrary: s)
  case Nil
  show ?case by (simp add: forEach_def resolved_def)
next
  case (Cons n ns)
  have "forEach parseSpineItem (n # ns) s = forEach parseSpineItem ns (snd (parseSpineItem n s))"
    by (simp add: forEach_def)
  then show ?case
    using Cons.IH [of "snd (parseSpineItem n s)"]
    by (simp add: parseSpineItem_fields resolved_Cons [of _ n ns] Diff_eq Int_assoc
        del: set_append) (auto simp: resolved_def)
qed

lemma parseSpineNode_fields:
  "m_items (parseSpineNode sp s) = m_items s \<and>
   m_orderedItems (parseSpineNode sp s) = m_orderedItems s @
     resolved (m_items s) (elementsByTagName (childNodes (toElement sp)) ''itemref'') \<and>
   m_unorderedItems (parseSpineNode sp s) = m_unorderedItems s -
     set (resolved (m_items s) (elementsByTagName (childNodes (toElement sp)) ''itemref''))"
  unfolding parseSpineNode_def Let_def
  by (simp add: forEach_parseSpineItem)

lemma fold_parseSpineNode:
  "m_items (fold parseSpineNode sps s) = m_items s \<and>
   m_orderedItems (fold parseSpineNode sps s) = m_orderedItems s @ resolved (m_items s)
     (concat (map (\<lambda>sp. elementsByTagName (childNodes (toElement sp)) ''itemref'') sps)) \<and>
   m_unorderedItems (fold parseSpineNode sps s) = m_unorderedItems s - set (resolved (m_items s)
     (concat (map (\<lambda>sp. elementsByTagName (childNodes (toElement sp)) ''itemref'') sps)))"
proof (induction sps arbitrary: s)
  case Nil
  show ?case by (simp add: resolved_def)
next
  case (Cons sp sps)
  show ?case
    using Cons.IH [of "parseSpineNode sp s"] parseSpineNode_fields [of sp s]
    by (auto simp: resolved_append)
qed

lemma parseSpineNodes_fields:
  "m_items (parseSpineNodes d s) = m_items s"
  "m_orderedItems (parseSpineNodes d s) = m_orderedItems s @ resolved (m_items s) (spineItemrefs d)"
  "m_unorderedItems (parseSpineNodes d s) =
     m_unorderedItems s - set (resolved (m_items s) (spineItemrefs d))"
  using fold_parseSpineNode [of "elementsByTagName d ''spine''" s]
  by (simp_all add: parseSpineNodes_def spineItemrefs_def)

section \<open>What a successful open leaves in the item registry\<close>

lemma manifestMap_Cons:
  "manifestMap folder (n # ns) items =
     manifestMap folder ns
       (if validItem n then items(attribute (toElement n) ''id'' \<mapsto> itemOf folder n) else items)"
  by (simp add: manifestMap_def)

lemma manifestUnordered_Cons:
  "manifestUnordered (n # ns) ids =
     manifestUnordered ns
       (if validItem n \<and> attribute (toElement n) ''media-type'' \<in> documentTypes
        then insert (attribute (toElement n) ''id'') ids else ids)"
  by (simp add: manifestUnordered_def)

lemma forEach_parseManifestItem:
  "m_items (forEach (\<lambda>n. parseManifestItem n folder) ns s) = manifestMap folder ns (m_items s) \<and>
   m_unorderedItems (forEach (\<lambda>n. parseManifestItem n folder) ns s) =
     manifestUnordered ns (m_unorderedItems s) \<and>
   m_orderedItems (forEach (\<lambda>n. parseManifestItem n folder) ns s) = m_orderedItems s"
proof (induction ns arbitrary: s)
  case Nil
  show ?case by (simp add: forEach_def manifestMap_def manifestUnordered_def)
next
  case (Cons n ns)
  let ?s = "snd (parseManifestItem n folder s)"
  have step: "forEach (\<lambda>n. parseManifestItem n folder) (n # ns) s =
      forEach (\<lambda>n. parseManifestItem n folder) ns ?s"
    by (simp add: forEach_def)
  have items: "m_items ?s =
      (if validItem n then (m_items s)(attribute (toElement n) ''id'' \<mapsto> itemOf folder n)
       else m_items s)"
    using parseManifestItem_valid(1) [of n folder s] parseManifestItem_invalid(1) [of n folder s]
    by (cases "validItem n") simp_all
  have unordered: "m_unorderedItems ?s =
      (if validItem n \<and> attribute (toElement n) ''media-type'' \<in> documentTypes
       then insert (attribute (toElement n) ''id'') (m_unorderedItems s) else m_unorderedItems s)"
    using parseManifestItem_valid(2) [of n folder s] parseManifestItem_invalid(2) [of n folder s]
    by (cases "validItem n") simp_all
  show ?case
    unfolding step manifestMap_Cons manifestUnordered_Cons
    using Cons.IH [of ?s]
    by (simp only: items unordered parseManifestItem_ordered)
qed

lemma parseContentFile_fields:
  assumes "readAll ar p = Some c"
  shows "m_items (snd (parseContentFile setContent ar p s)) =
           manifestMap (contentFileFolder p) (manifestItems (snd (setContent True c))) (m_items s)"
    and "m_orderedItems (snd (parseContentFile setContent ar p s)) =
           m_orderedItems s @ resolved (m_items (snd (parseContentFile setContent ar p s)))
             (spineItemrefs (snd (setContent True c)))"
    and "m_unorderedItems (snd (parseContentFile setContent ar p s)) =
           manifestUnordered (manifestItems (snd (setContent True c))) (m_unorderedItems s)
             - set (resolved (m_items (snd (parseContentFile setContent ar p s)))
                 (spineItemrefs (snd (setContent True c))))"
  using assms
  by (simp_all add: parseContentFile_readable parseGuideNodes_frame parseSpineNodes_fields
      parseManifestNodes_forEach forEach_parseManifestItem parseMetadataNodes_frame)

lemma manifestMap_dom:
  "dom (manifestMap folder ns items) =
     dom items \<union> set (map (\<lambda>n. attribute (toElement n) ''id'') (filter validItem ns))"
  by (induction ns arbitrary: items) (auto simp: manifestMap_Cons manifestMap_def)

lemma parseMimetype_frame:
  "m_items (snd (parseMimetype ar files s)) = m_items s"
  "m_orderedItems (snd (parseMimetype ar files s)) = m_orderedItems s"
  "m_unorderedItems (snd (parseMimetype ar files s)) = m_unorderedItems s"
  by (simp_all add: parseMimetype_def errorHappened_def split: option.splits)

lemma skipped_frame:
  "m_items (skipped ar ps s) = m_items s"
  "m_orderedItems (skipped ar ps s) = m_orderedItems s"
  "m_unorderedItems (skipped ar ps s) = m_unorderedItems s"
  by (simp_all add: skipped_def)

lemma parseToc_shape:
  assumes "parseToc setContent ar files s = Some (b, s')"
  shows "\<exists>toc ev. s' = s\<lparr>m_toc := toc, events := ev\<rparr>"
proof (cases "TOC_FILE \<in> set files")
  case False
  with assms have "s' = s" by (simp add: parseToc_def)
  then have "s' = s\<lparr>m_toc := m_toc s, events := events s\<rparr>" by simp
  then show ?thesis by blast
next
  case listed: True
  show ?thesis
  proof (cases "readAll ar TOC_FILE")
    case None
    with assms listed have "s' = s\<lparr>m_toc := m_toc s, events := events s @
        [ErrorHappened ''Unable to open container file error %1'' []]\<rparr>"
      by (simp add: parseToc_def errorHappened_def)
    then show ?thesis by blast
  next
    case (Some content)
    obtain ok document where sc: "setContent False content = (ok, document)"
      by (cases "setContent False content")
    show ?thesis
    proof (cases ok)
      case False
      with assms listed Some sc have "s' = s" by (simp add: parseToc_def)
      then have "s' = s\<lparr>m_toc := m_toc s, events := events s\<rparr>" by simp
      then show ?thesis by blast
    next
      case True
      with assms listed Some sc have "\<exists>toc. s' = s\<lparr>m_toc := toc\<rparr>"
        by (auto simp: parseToc_def Let_def split: option.splits)
      then obtain toc where "s' = s\<lparr>m_toc := toc, events := events s\<rparr>" by auto
      then show ?thesis by blast
    qed
  qed
qed

lemma parseToc_frame:
  assumes "parseToc setContent ar files s = Some (b, s')"
  shows "m_items s' = m_items s" "m_orderedItems s' = m_orderedItems s"
    "m_unorderedItems s' = m_unorderedItems s"
  using parseToc_shape [OF assms] by auto

lemma openFile_success:
  assumes "openFile setContent ar filename s = Some (True, s')"
  shows "\<exists>s1 s2. parseMimetype ar (getFileNameList ar) (s\<lparr>m_filename := filename\<rparr>) = (True, s1)
    \<and> parseContainer setContent ar (getFileNameList ar) s1 = (True, s2)
    \<and> parseToc setContent ar (getFileNameList ar) s2 = Some (True, s')"
proof -
  let ?files = "getFileNameList ar"
  from assms have o: "opens ar" "?files \<noteq> []"
    by (auto simp: openFile_def Let_def split: if_splits)
  obtain b1 s1 where m: "parseMimetype ar ?files (s\<lparr>m_filename := filename\<rparr>) = (b1, s1)"
    by (cases "parseMimetype ar ?files (s\<lparr>m_filename := filename\<rparr>)")
  obtain b2 s2 where c: "parseContainer setContent ar ?files s1 = (b2, s2)"
    by (cases "parseContainer setContent ar ?files s1")
  from assms o m have b1: b1
    by (cases b1) (simp_all add: openFile_def Let_def)
  from assms o m b1 c have b2: b2
    by (cases b2) (simp_all add: openFile_def Let_def)
  from assms o m b1 c b2 have "parseToc setContent ar ?files s2 = Some (True, s')"
    by (simp add: openFile_def Let_def split: option.splits prod.splits bool.splits)
  with m c b1 b2 show ?thesis
    by (intro exI [of _ s1] exI [of _ s2]) simp
qed

lemma parseContainer_success:
  assumes "parseContainer setContent ar files s = (True, s')"
  shows "\<exists>container p content. readAll ar CONTAINER_FILE = Some container
    \<and> List.find (usable ar) (rootfilePaths (snd (setContent False container))) = Some p
    \<and> readAll ar p = Some content
    \<and> s' = snd (parseContentFile setContent ar p
        (skipped ar (rootfilePaths (snd (setContent False container))) s))"
proof -
  from assms have listed: "CONTAINER_FILE \<in> set files"
    by (auto simp: parseContainer_def split: if_splits)
  with assms obtain container where c: "readAll ar CONTAINER_FILE = Some container"
    by (cases "readAll ar CONTAINER_FILE") (auto simp: parseContainer_def)
  let ?ps = "rootfilePaths (snd (setContent False container))"
  from assms parseContainer_readable [OF listed c, of setContent s]
  obtain p where p: "List.find (usable ar) ?ps = Some p"
    by (cases "List.find (usable ar) ?ps") auto
  with assms parseContainer_readable [OF listed c, of setContent s]
  have "s' = snd (parseContentFile setContent ar p (skipped ar ?ps s))" by simp
  moreover from find_usable [OF p] obtain content where "readAll ar p = Some content" by auto
  ultimately show ?thesis using c p by blast
qed

lemma openFile_package:
  assumes "openFile setContent ar filename s = Some (True, s')"
  shows "\<exists>container p content. readAll ar CONTAINER_FILE = Some container
    \<and> List.find (usable ar) (rootfilePaths (snd (setContent False container))) = Some p
    \<and> readAll ar p = Some content
    \<and> m_items s' = manifestMap (contentFileFolder p)
        (manifestItems (snd (setContent True content))) (m_items s)
    \<and> m_orderedItems s' = m_orderedItems s @
        resolved (m_items s') (spineItemrefs (snd (setContent True content)))
    \<and> m_unorderedItems s' =
        manifestUnordered (manifestItems (snd (setContent True content))) (m_unorderedItems s)
          - set (resolved (m_items s') (spineItemrefs (snd (setContent True content))))"
proof -
  from openFile_success [OF assms] obtain s1 s2 where
    s1: "parseMimetype ar (getFileNameList ar) (s\<lparr>m_filename := filename\<rparr>) = (True, s1)" and
    s2: "parseContainer setContent ar (getFileNameList ar) s1 = (True, s2)" and
    s3: "parseToc setContent ar (getFileNameList ar) s2 = Some (True, s')"
    by blast
  from s1 parseMimetype_frame [of ar "getFileNameList ar" "s\<lparr>m_filename := filename\<rparr>"]
  have f1: "m_items s1 = m_items s" "m_orderedItems s1 = m_orderedItems s"
    "m_unorderedItems s1 = m_unorderedItems s"
    by simp_all
  from parseContainer_success [OF s2] obtain container p content where
    c: "readAll ar CONTAINER_FILE = Some container" and
    p: "List.find (usable ar) (rootfilePaths (snd (setContent False container))) = Some p" and
    r: "readAll ar p = Some content" and
    e: "s2 = snd (parseContentFile setContent ar p
        (skipped ar (rootfilePaths (snd (setContent False container))) s1))"
    by blast
  note f2 = parseContentFile_fields [OF r, of setContent
      "skipped ar (rootfilePaths (snd (setContent False container))) s1", folded e]
  note f3 = parseToc_frame [OF s3]
  have "m_items s' = manifestMap (contentFileFolder p)
        (manifestItems (snd (setContent True content))) (m_items s)"
    using f2(1) f3(1) f1(1) by (simp add: skipped_frame)
  moreover have "m_orderedItems s' = m_orderedItems s @
        resolved (m_items s') (spineItemrefs (snd (setContent True content)))"
    using f2(2) f3(1,2) f1(2) by (simp add: skipped_frame)
  moreover have "m_unorderedItems s' =
        manifestUnordered (manifestItems (snd (setContent True content))) (m_unorderedItems s)
          - set (resolved (m_items s') (spineItemrefs (snd (setContent True content))))"
    using f2(3) f3(1,3) f1(3) by (simp add: skipped_frame)
  ultimately show ?thesis using c p r by blast
qed

section \<open>Ordered and unordered items\<close>




lemma example_parsed_fields:
  "dom (m_items example_parsed) = {''ch1'', ''ch2'', ''notes'', ''img''}"
  "m_orderedItems example_parsed = [''ch1'', ''ch2'', ''ch1'']"
  "m_unorderedItems example_parsed = {''notes''}"
proof -
  let ?ar = "example_archive ''application/epub+zip''"
  have r: "readAll ?ar ''OEBPS/content.opf'' = Some ''<package/>''"
    by (simp add: example_archive_def)
  have d: "snd (example_setContent True ''<package/>'') = package_doc"
    by (simp add: example_setContent_def)
  note f = parseContentFile_fields [OF r, of example_setContent EPubContainer_new,
      folded example_parsed_def, unfolded d]
  show dom: "dom (m_items example_parsed) = {''ch1'', ''ch2'', ''notes'', ''img''}"
    unfolding f(1) manifestMap_dom
    using example_package(1) by (simp add: manifestIds_def EPubContainer_new_def)
  then have "\<And>r. (r \<in> dom (m_items example_parsed)) =
      (r \<in> {''ch1'', ''ch2'', ''notes'', ''img''})"
    by (simp only:)
  then have known: "\<And>r. (m_items example_parsed r \<noteq> None) =
      (r \<in> {''ch1'', ''ch2'', ''notes'', ''img''})"
    by (simp only: domIff)
  have res: "resolved (m_items example_parsed) (spineItemrefs package_doc) =
      [''ch1'', ''ch2'', ''ch1'']"
    unfolding resolved_def example_package(2) by (simp add: known del: not_None_eq)
  show "m_orderedItems example_parsed = [''ch1'', ''ch2'', ''ch1'']"
    using f(2) res by (simp add: EPubContainer_new_def)
  have "manifestUnordered (manifestItems package_doc) {} = {''ch1'', ''ch2'', ''notes''}"
    by (auto simp: manifestUnordered_def manifestItems_def elementsByTagName_def package_doc_def
        validItem_def attribute_def documentTypes_def)
  then show "m_unorderedItems example_parsed = {''notes''}"
    using f(3) res by (auto simp: EPubContainer_new_def)
qed

section \<open>The folder of the package document\<close>

lemma lastIndexOf_absent: "c \<notin> set xs \<Longrightarrow> lastIndexOf c xs = -1"
  by (induction xs) (auto simp: Let_def)

lemma lastIndexOf_last:
  "c \<notin> set f \<Longrightarrow> lastIndexOf c (d @ c # f) = int (length d)"
  by (induction d) (simp_all add: Let_def lastIndexOf_absent)

lemma contentFileFolder_directory:
  assumes "d \<noteq> []" "CHR ''/'' \<notin> set f"
  shows "contentFileFolder (d @ ''/'' @ f) = d @ ''/''"
proof -
  have "lastIndexOf CHR ''/'' (d @ ''/'' @ f) = int (length d)"
    using lastIndexOf_last [OF assms(2), of d] by simp
  moreover have "0 < int (length d)" using assms(1) by simp
  ultimately show ?thesis
    by (simp add: contentFileFolder_def left_def nat_add_distrib)
qed

lemma contentFileFolder_root:
  assumes "CHR ''/'' \<notin> set f"
  shows "contentFileFolder f = []" "contentFileFolder (CHR ''/'' # f) = []"
  using assms lastIndexOf_last [OF assms, of "[]"]
  by (simp_all add: contentFileFolder_def lastIndexOf_absent Let_def)

lemma manifestMap_lookup:
  "manifestMap folder ns items i = Some it \<Longrightarrow>
   items i = Some it \<or>
   (\<exists>n \<in> set ns. validItem n \<and> attribute (toElement n) ''id'' = i \<and> it = itemOf folder n)"
proof (induction ns arbitrary: items)
  case Nil
  then show ?case by (simp add: manifestMap_def)
next
  case (Cons n ns)
  from Cons.prems have "manifestMap folder ns
      (if validItem n then items(attribute (toElement n) ''id'' \<mapsto> itemOf folder n) else items) i
      = Some it"
    by (simp only: manifestMap_Cons)
  from Cons.IH [OF this] show ?case
    by (auto split: if_splits)
qed

section \<open>The two loops of parseToc\<close>

lemma metaLoop_null: "metaLoop head [] md = Some md"
  by (subst metaLoop.simps) (simp add: isNull_def)

lemma metaLoop_returns:
  assumes "metaLoop head meta md = Some y"
  shows "meta = [] \<or> nextSiblingElement head ''navPoint'' = []"
proof (rule metaLoop.raw_induct
    [where P = "\<lambda>h m d r. m = [] \<or> nextSiblingElement h ''navPoint'' = []", OF _ assms])
  fix loop :: "QDomElement \<Rightarrow> QDomElement \<Rightarrow> (string \<rightharpoonup> string) \<Rightarrow> (string \<rightharpoonup> string) option"
    and h m :: QDomElement and d r :: "string \<rightharpoonup> string"
  assume ih: "\<And>h' m' d' r'. loop h' m' d' = Some r' \<Longrightarrow>
      m' = [] \<or> nextSiblingElement h' ''navPoint'' = []"
    and body: "(if isNull m then Some d
      else loop h (nextSiblingElement h ''navPoint'')
             (d(attribute (node m) ''name'' \<mapsto> attribute (node m) ''content''))) = Some r"
  show "m = [] \<or> nextSiblingElement h ''navPoint'' = []"
  proof (cases "isNull m")
    case True
    then show ?thesis by (simp add: isNull_def)
  next
    case False
    with body have "loop h (nextSiblingElement h ''navPoint'')
        (d(attribute (node m) ''name'' \<mapsto> attribute (node m) ''content'')) = Some r"
      by simp
    from ih [OF this] show ?thesis by simp
  qed
qed

lemma metaLoop_char:
  "metaLoop head meta md =
     (if isNull meta then Some md
      else if isNull (nextSiblingElement head ''navPoint'')
      then Some (md(attribute (node meta) ''name'' \<mapsto> attribute (node meta) ''content''))
      else None)"
proof (cases "isNull meta")
  case True
  then show ?thesis by (simp add: isNull_def metaLoop_null)
next
  case False
  show ?thesis
  proof (cases "isNull (nextSiblingElement head ''navPoint'')")
    case True
    have "metaLoop head meta md = metaLoop head (nextSiblingElement head ''navPoint'')
        (md(attribute (node meta) ''name'' \<mapsto> attribute (node meta) ''content''))"
      using False by (subst metaLoop.simps) simp
    with True False show ?thesis by (simp add: isNull_def metaLoop_null)
  next
    case sibling: False
    have "metaLoop head meta md = None"
    proof (cases "metaLoop head meta md")
      case None
      then show ?thesis .
    next
      case (Some y)
      from metaLoop_returns [OF this] False sibling show ?thesis
        by (simp add: isNull_def)
    qed
    with False sibling show ?thesis by simp
  qed
qed

lemma makeNavPoint_node: "makeNavPoint (np # rest) = snd (navEntry np)"
  by (simp add: navEntry_def makeNavPoint_def node_def firstChildElement_def)

lemma navLoop_dropWhile:
  "navLoop (dropWhile (\<lambda>n. \<not> isElementNamed ''navPoint'' n) xs) nm =
     fold (\<lambda>np m. m(fst (navEntry np) \<mapsto> snd (navEntry np)))
       (filter (isElementNamed ''navPoint'') xs) nm"
proof (induction xs arbitrary: nm)
  case Nil
  show ?case by (subst navLoop.simps) (simp add: isNull_def)
next
  case (Cons x xs)
  show ?case
  proof (cases "isElementNamed ''navPoint'' x")
    case True
    have key: "toInt (attribute x ''playOrder'') = fst (navEntry x)"
      by (simp add: navEntry_def)
    have "navLoop (x # xs) nm =
        navLoop (dropWhile (\<lambda>n. \<not> isElementNamed ''navPoint'' n) xs)
          (nm(fst (navEntry x) \<mapsto> snd (navEntry x)))"
      by (subst navLoop.simps)
        (simp add: isNull_def nextSiblingElement_def node_def makeNavPoint_node key)
    with True Cons.IH show ?thesis by simp
  next
    case False
    with Cons.IH show ?thesis by simp
  qed
qed

lemma fold_upd_map_of:
  "fold (\<lambda>x m. m(fst (kv x) \<mapsto> snd (kv x))) xs m = m ++ map_of (rev (map kv xs))"
proof (induction xs arbitrary: m)
  case Nil
  show ?case by simp
next
  case (Cons x xs)
  have "fold (\<lambda>x m. m(fst (kv x) \<mapsto> snd (kv x))) (x # xs) m =
      fold (\<lambda>x m. m(fst (kv x) \<mapsto> snd (kv x))) xs (m(fst (kv x) \<mapsto> snd (kv x)))"
    by simp
  also have "\<dots> = m(fst (kv x) \<mapsto> snd (kv x)) ++ map_of (rev (map kv xs))"
    by (rule Cons.IH)
  also have "\<dots> = m ++ (map_of [kv x] ++ map_of (rev (map kv xs)))"
    by (auto simp: fun_eq_iff map_add_def split: option.splits)
  also have "\<dots> = m ++ map_of (rev (map kv (x # xs)))"
    by (simp only: list.map rev.simps map_of_append)
  finally show ?case .
qed

lemma navLoop_navmap:
  "navLoop (firstChildElement navMap ''navPoint'') nm =
     nm ++ map_of (rev (map navEntry (navPoints navMap)))"
  unfolding firstChildElement_def navPoints_def
  by (simp only: navLoop_dropWhile fold_upd_map_of)



section \<open>What parseToc stores\<close>

lemma parseToc_parsed:
  assumes "TOC_FILE \<in> set files" "readAll ar TOC_FILE = Some content"
    and "setContent False content = (True, document)"
  shows "parseToc setContent ar files s =
    (if \<not> isNull (firstChildElement (firstChildElement (documentElement document) ''head'') ''meta'')
        \<and> \<not> isNull (nextSiblingElement (firstChildElement (documentElement document) ''head'')
              ''navPoint'')
     then None
     else Some (True, s\<lparr>m_toc := (m_toc s)
       \<lparr>version := attribute (node (documentElement document)) ''version'',
        xmlns := attribute (node (documentElement document)) ''xmlns'',
        xml_lang := attribute (node (documentElement document)) ''xml:lang'',
        metadata_toc :=
          (if isNull (firstChildElement (firstChildElement (documentElement document) ''head'')
                ''meta'')
           then metadata_toc (m_toc s)
           else (metadata_toc (m_toc s))
             (attribute (node (firstChildElement
                 (firstChildElement (documentElement document) ''head'') ''meta'')) ''name'' \<mapsto>
              attribute (node (firstChildElement
                 (firstChildElement (documentElement document) ''head'') ''meta'')) ''content'')),
        title_toc := text_of (node (firstChildElement (documentElement document) ''docTitle'')),
        navmap := navmap (m_toc s) ++ map_of (rev (map navEntry
          (navPoints (firstChildElement (documentElement document) ''navMap''))))\<rparr>\<rparr>))"
  using assms
  by (simp add: parseToc_def Let_def metaLoop_char navLoop_navmap)

lemma example_toc:
  "parseToc example_setContent archive_with_toc (getFileNameList archive_with_toc) s =
     Some (True, s\<lparr>m_toc := (m_toc s)
       \<lparr>version := ''2005-1'', xmlns := [], xml_lang := ''en'',
        metadata_toc := (metadata_toc (m_toc s))(''dtb:uid'' \<mapsto> ''urn:uuid:1''),
        title_toc := ''Emma'',
        navmap := navmap (m_toc s) ++ map_of (rev (map navEntry
          (navPoints (firstChildElement (documentElement ncx_doc) ''navMap''))))\<rparr>\<rparr>)"
proof -
  have 1: "TOC_FILE \<in> set (getFileNameList archive_with_toc)"
    "readAll archive_with_toc TOC_FILE = Some ''<ncx/>''"
    "example_setContent False ''<ncx/>'' = (True, ncx_doc)"
    by (simp_all add: archive_with_toc_def TOC_FILE_def example_setContent_def)
  have root: "documentElement ncx_doc = ncx_doc"
    by (simp add: documentElement_def ncx_doc_def)
  note p = parseToc_parsed [of "getFileNameList archive_with_toc" archive_with_toc "''<ncx/>''"
      example_setContent ncx_doc s, OF 1]
  have head: "firstChildElement ncx_doc ''head'' = childNodes (node ncx_doc)"
    by (simp add: ncx_doc_def firstChildElement_def node_def isElementNamed_def)
  have q: "\<not> isNull (firstChildElement (childNodes (node ncx_doc)) ''meta'')"
    "isNull (nextSiblingElement (childNodes (node ncx_doc)) ''navPoint'')"
    "attribute (node (firstChildElement (childNodes (node ncx_doc)) ''meta'')) ''name'' = ''dtb:uid''"
    "attribute (node (firstChildElement (childNodes (node ncx_doc)) ''meta'')) ''content'' =
       ''urn:uuid:1''"
    "text_of (node (firstChildElement ncx_doc ''docTitle'')) = ''Emma''"
    "attribute (node ncx_doc) ''version'' = ''2005-1''"
    "attribute (node ncx_doc) ''xmlns'' = []"
    "attribute (node ncx_doc) ''xml:lang'' = ''en''"
    by (simp_all add: ncx_doc_def firstChildElement_def nextSiblingElement_def node_def
        isElementNamed_def isNull_def attribute_def)
  show ?thesis
    unfolding p root head by (simp only: q if_False if_True simp_thms)
qed




section \<open>Metadata items are classified by tag and prefix\<close>

lemma storeMetadataItem_stores:
  "metaName \<noteq> [] \<Longrightarrow> metaValue \<noteq> [] \<Longrightarrow>
   fst (storeMetadataItem nodeMap metaName metaValue s) = True \<and>
   m_metadata (snd (storeMetadataItem nodeMap metaName metaValue s)) =
     (m_metadata s)(metaName \<mapsto> metaValue)"
  by (simp add: storeMetadataItem_def Let_def)

lemma storeMetadataItem_discards:
  "metaName = [] \<or> metaValue = [] \<Longrightarrow> storeMetadataItem nodeMap metaName metaValue s = (False, s)"
  by (auto simp: storeMetadataItem_def)

lemma subscript_upd: "(subscript m k)(k \<mapsto> v) = m(k \<mapsto> v)"
  by (simp add: subscript_def split: option.splits)

lemma value_or_empty_subscript: "value_or_empty (subscript m k) k' = value_or_empty m k'"
  by (simp add: subscript_def value_or_empty_def split: option.splits)

lemma parseMetadataItem_meta:
  assumes "tagName (toElement n) = ''meta''"
  shows "parseMetadataItem n s = storeMetadataItem (attributes (toElement n))
           (attribute (toElement n) ''name'') (attribute (toElement n) ''content'') s"
  using assms by (simp add: parseMetadataItem_def Let_def)

lemma parseMetadataItem_unsupported:
  assumes "tagName (toElement n) \<noteq> ''meta''" "prefix (toElement n) \<noteq> ''dc''"
  shows "parseMetadataItem n s =
           (False, QLOG_WARN ''Unsupported metadata tag %1'' [tagName (toElement n)] s)"
  using assms by (simp add: parseMetadataItem_def Let_def)

lemma parseMetadataItem_date:
  assumes "prefix (toElement n) = ''dc''" "tagName (toElement n) = ''date''"
  shows "parseMetadataItem n s = storeMetadataItem (attributes (toElement n))
           (attribute (toElement n) ''event'') (text_of (toElement n)) s"
  using assms by (simp add: parseMetadataItem_def Let_def)

lemma parseMetadataItem_creator:
  assumes "prefix (toElement n) = ''dc''" "tagName (toElement n) = ''creator''"
  shows "parseMetadataItem n s = storeMetadataItem (attributes (toElement n)) ''creator''
           (if metadata s ''creator'' = [] then text_of (toElement n)
            else metadata s ''creator'' @ ''; '' @ text_of (toElement n))
           (s\<lparr>m_metadata := subscript (m_metadata s) ''creator''\<rparr>)"
  using assms
  by (simp add: parseMetadataItem_def Let_def metadata_def value_or_empty_subscript)

lemma parseMetadataItem_dc_other:
  assumes "prefix (toElement n) = ''dc''" "tagName (toElement n) \<noteq> ''meta''"
    "tagName (toElement n) \<noteq> ''date''" "tagName (toElement n) \<noteq> ''creator''"
  shows "parseMetadataItem n s = storeMetadataItem (attributes (toElement n))
           (tagName (toElement n)) (text_of (toElement n)) s"
  using assms by (simp add: parseMetadataItem_def Let_def)

lemma creator_stored:
  assumes "prefix (toElement n) = ''dc''" "tagName (toElement n) = ''creator''"
    and "v = (if metadata s ''creator'' = [] then text_of (toElement n)
              else metadata s ''creator'' @ ''; '' @ text_of (toElement n))"
    and "v \<noteq> []"
  shows "fst (parseMetadataItem n s) = True \<and>
         m_metadata (snd (parseMetadataItem n s)) = (m_metadata s)(''creator'' \<mapsto> v)"
proof -
  have "parseMetadataItem n s = storeMetadataItem (attributes (toElement n)) ''creator'' v
          (s\<lparr>m_metadata := subscript (m_metadata s) ''creator''\<rparr>)"
    using parseMetadataItem_creator [OF assms(1,2)] assms(3) by simp
  then show ?thesis
    using storeMetadataItem_stores [of "''creator''" v "attributes (toElement n)"
        "s\<lparr>m_metadata := subscript (m_metadata s) ''creator''\<rparr>"] assms(4)
    by (simp add: subscript_upd)
qed

lemma creator_discarded:
  assumes "prefix (toElement n) = ''dc''" "tagName (toElement n) = ''creator''"
    and "metadata s ''creator'' = []" "text_of (toElement n) = []"
  shows "fst (parseMetadataItem n s) = False \<and>
         (\<forall>key. metadata (snd (parseMetadataItem n s)) key = metadata s key)"
  using parseMetadataItem_creator [OF assms(1,2), of s] assms(3,4)
  by (simp add: storeMetadataItem_def metadata_def value_or_empty_subscript)

lemma joinWith_Cons: "joinWith sep (x # xs) = x @ concat (map (\<lambda>y. sep @ y) xs)"
  by (induction xs arbitrary: x) simp_all

lemma creators_append:
  assumes "\<forall>n \<in> set ns. prefix (toElement n) = ''dc'' \<and> tagName (toElement n) = ''creator''"
    and "metadata s ''creator'' \<noteq> []"
  shows "metadata (forEach parseMetadataItem ns s) ''creator'' =
           metadata s ''creator'' @ concat (map (\<lambda>n. ''; '' @ text_of (toElement n)) ns)"
  using assms
proof (induction ns arbitrary: s)
  case Nil
  then show ?case by (simp add: forEach_def)
next
  case (Cons n ns)
  let ?v = "metadata s ''creator'' @ ''; '' @ text_of (toElement n)"
  let ?s = "snd (parseMetadataItem n s)"
  have "m_metadata ?s = (m_metadata s)(''creator'' \<mapsto> ?v)"
    using creator_stored [of n ?v s] Cons.prems by simp
  then have v: "metadata ?s ''creator'' = ?v"
    by (simp add: metadata_def value_or_empty_def)
  then have "metadata ?s ''creator'' \<noteq> []" by simp
  with Cons.IH [of ?s] Cons.prems(1)
  have "metadata (forEach parseMetadataItem ns ?s) ''creator'' =
          metadata ?s ''creator'' @ concat (map (\<lambda>n. ''; '' @ text_of (toElement n)) ns)"
    by simp
  with v show ?case by (simp add: forEach_def)
qed

lemma creators_joined:
  assumes "\<forall>n \<in> set ns. prefix (toElement n) = ''dc'' \<and> tagName (toElement n) = ''creator''
             \<and> text_of (toElement n) \<noteq> []"
    and "metadata s ''creator'' = []"
  shows "metadata (forEach parseMetadataItem ns s) ''creator'' =
           joinWith ''; '' (map (\<lambda>n. text_of (toElement n)) ns)"
proof (cases ns)
  case Nil
  with assms(2) show ?thesis by (simp add: forEach_def)
next
  case (Cons n ms)
  let ?s = "snd (parseMetadataItem n s)"
  have "m_metadata ?s = (m_metadata s)(''creator'' \<mapsto> text_of (toElement n))"
    using creator_stored [of n "text_of (toElement n)" s] assms Cons by simp
  then have v: "metadata ?s ''creator'' = text_of (toElement n)"
    by (simp add: metadata_def value_or_empty_def)
  moreover have "metadata ?s ''creator'' \<noteq> []"
    using v assms(1) Cons by simp
  moreover have "\<forall>n \<in> set ms. prefix (toElement n) = ''dc'' \<and> tagName (toElement n) = ''creator''"
    using assms(1) Cons by simp
  ultimately have "metadata (forEach parseMetadataItem ms ?s) ''creator'' =
      text_of (toElement n) @ concat (map (\<lambda>n. ''; '' @ text_of (toElement n)) ms)"
    using creators_append [of ms ?s] by simp
  then show ?thesis
    using Cons by (simp add: forEach_def joinWith_Cons comp_def)
qed

text \<open>
  C5. What \<open>parseMetadataItem\<close> does with a child \<open>e\<close> of a \<open>metadata\<close> element:
  \<^item> named \<open>meta\<close>: stores (attribute \<open>name\<close> \<open>\<mapsto>\<close> attribute \<open>content\<close>);
  \<^item> \<open>dc:date\<close>: stores (attribute \<open>event\<close> \<open>\<mapsto>\<close> text);
  \<^item> \<open>dc:creator\<close>: stores under \<open>creator\<close> the text when no creator is stored yet, and
    otherwise the stored value, \<open>; \<close> and the text, so that a run of creators with
    non-empty texts read into a state without a creator leaves the texts joined by \<open>; \<close>;
  \<^item> any other \<open>dc\<close> element: stores (tag name \<open>\<mapsto>\<close> text);
  \<^item> neither \<open>meta\<close> nor \<open>dc\<close>: a warning, and the state is otherwise as before;
  \<^item> an empty name or value: nothing is stored. In the creator branch the read of
    \<open>m_metadata["creator"]\<close> may leave the key with the empty string, which
    \<open>metadata(key)\<close> does not tell from an absent key.
\<close>

theorem parseMetadataItem_classifies:
  "(let e = toElement n; tag = tagName e; dc = (prefix e = ''dc'');
        r = parseMetadataItem n s
    in (tag = ''meta'' \<and> attribute e ''name'' \<noteq> [] \<and> attribute e ''content'' \<noteq> [] \<longrightarrow>
          fst r \<and> m_metadata (snd r) = (m_metadata s)(attribute e ''name'' \<mapsto> attribute e ''content''))
     \<and> (tag = ''date'' \<and> dc \<and> attribute e ''event'' \<noteq> [] \<and> text_of e \<noteq> [] \<longrightarrow>
          fst r \<and> m_metadata (snd r) = (m_metadata s)(attribute e ''event'' \<mapsto> text_of e))
     \<and> (tag = ''creator'' \<and> dc \<and> metadata s ''creator'' = [] \<and> text_of e \<noteq> [] \<longrightarrow>
          fst r \<and> m_metadata (snd r) = (m_metadata s)(''creator'' \<mapsto> text_of e))
     \<and> (tag = ''creator'' \<and> dc \<and> metadata s ''creator'' \<noteq> [] \<longrightarrow>
          fst r \<and> m_metadata (snd r) =
            (m_metadata s)(''creator'' \<mapsto> metadata s ''creator'' @ ''; '' @ text_of e))
     \<and> (tag \<notin> {''meta'', ''date'', ''creator''} \<and> dc \<and> tag \<noteq> [] \<and> text_of e \<noteq> [] \<longrightarrow>
          fst r \<and> m_metadata (snd r) = (m_metadata s)(tag \<mapsto> text_of e))
     \<and> (tag \<noteq> ''meta'' \<and> \<not> dc \<longrightarrow>
          r = (False, QLOG_WARN ''Unsupported metadata tag %1'' [tag] s))
     \<and> (tag = ''meta'' \<and> (attribute e ''name'' = [] \<or> attribute e ''content'' = []) \<longrightarrow>
          r = (False, s))
     \<and> (tag = ''date'' \<and> dc \<and> (attribute e ''event'' = [] \<or> text_of e = []) \<longrightarrow>
          r = (False, s))
     \<and> (tag = ''creator'' \<and> dc \<and> metadata s ''creator'' = [] \<and> text_of e = [] \<longrightarrow>
          \<not> fst r \<and> (\<forall>key. metadata (snd r) key = metadata s key))
     \<and> (tag \<notin> {''meta'', ''date'', ''creator''} \<and> dc \<and> (tag = [] \<or> text_of e = []) \<longrightarrow>
          r = (False, s)))
   \<and> ((\<forall>c \<in> set cs. tagName (toElement c) = ''creator'' \<and> prefix (toElement c) = ''dc''
          \<and> text_of (toElement c) \<noteq> []) \<and> metadata s ''creator'' = [] \<longrightarrow>
        metadata (forEach parseMetadataItem cs s) ''creator'' =
          joinWith ''; '' (map (\<lambda>c. text_of (toElement c)) cs))"
proof -
  let ?e = "toElement n"
  let ?r = "parseMetadataItem n s"
  have c1: "tagName ?e = ''meta'' \<and> attribute ?e ''name'' \<noteq> [] \<and> attribute ?e ''content'' \<noteq> [] \<longrightarrow>
      fst ?r \<and> m_metadata (snd ?r) =
        (m_metadata s)(attribute ?e ''name'' \<mapsto> attribute ?e ''content'')"
    using storeMetadataItem_stores by (simp add: parseMetadataItem_meta)
  have c2: "tagName ?e = ''date'' \<and> prefix ?e = ''dc'' \<and> attribute ?e ''event'' \<noteq> [] \<and>
      text_of ?e \<noteq> [] \<longrightarrow>
      fst ?r \<and> m_metadata (snd ?r) = (m_metadata s)(attribute ?e ''event'' \<mapsto> text_of ?e)"
    using storeMetadataItem_stores by (simp add: parseMetadataItem_date)
  have c3: "tagName ?e = ''creator'' \<and> prefix ?e = ''dc'' \<and>
      metadata s ''creator'' = [] \<and> text_of ?e \<noteq> [] \<longrightarrow>
      fst ?r \<and> m_metadata (snd ?r) = (m_metadata s)(''creator'' \<mapsto> text_of ?e)"
    using creator_stored [of n "text_of ?e" s] by simp
  have c4: "tagName ?e = ''creator'' \<and> prefix ?e = ''dc'' \<and> metadata s ''creator'' \<noteq> [] \<longrightarrow>
      fst ?r \<and> m_metadata (snd ?r) =
        (m_metadata s)(''creator'' \<mapsto> metadata s ''creator'' @ ''; '' @ text_of ?e)"
    using creator_stored [of n "metadata s ''creator'' @ ''; '' @ text_of ?e" s] by simp
  have c5: "tagName ?e \<notin> {''meta'', ''date'', ''creator''} \<and> prefix ?e = ''dc'' \<and>
      tagName ?e \<noteq> [] \<and> text_of ?e \<noteq> [] \<longrightarrow>
      fst ?r \<and> m_metadata (snd ?r) = (m_metadata s)(tagName ?e \<mapsto> text_of ?e)"
    using storeMetadataItem_stores by (simp add: parseMetadataItem_dc_other)
  have c6: "tagName ?e \<noteq> ''meta'' \<and> prefix ?e \<noteq> ''dc'' \<longrightarrow>
      ?r = (False, QLOG_WARN ''Unsupported metadata tag %1'' [tagName ?e] s)"
    by (simp add: parseMetadataItem_unsupported)
  have c7: "tagName ?e = ''meta'' \<and> (attribute ?e ''name'' = [] \<or> attribute ?e ''content'' = []) \<longrightarrow>
      ?r = (False, s)"
    using storeMetadataItem_discards by (simp add: parseMetadataItem_meta)
  have c8: "tagName ?e = ''date'' \<and> prefix ?e = ''dc'' \<and>
      (attribute ?e ''event'' = [] \<or> text_of ?e = []) \<longrightarrow> ?r = (False, s)"
    using storeMetadataItem_discards by (simp add: parseMetadataItem_date)
  have c9: "tagName ?e = ''creator'' \<and> prefix ?e = ''dc'' \<and> metadata s ''creator'' = [] \<and>
      text_of ?e = [] \<longrightarrow> \<not> fst ?r \<and> (\<forall>key. metadata (snd ?r) key = metadata s key)"
    using creator_discarded [of n s] by simp
  have c10: "tagName ?e \<notin> {''meta'', ''date'', ''creator''} \<and> prefix ?e = ''dc'' \<and>
      (tagName ?e = [] \<or> text_of ?e = []) \<longrightarrow> ?r = (False, s)"
    using storeMetadataItem_discards by (simp add: parseMetadataItem_dc_other)
  have c11: "(\<forall>c \<in> set cs. tagName (toElement c) = ''creator'' \<and> prefix (toElement c) = ''dc''
          \<and> text_of (toElement c) \<noteq> []) \<and> metadata s ''creator'' = [] \<longrightarrow>
        metadata (forEach parseMetadataItem cs s) ''creator'' =
          joinWith ''; '' (map (\<lambda>c. text_of (toElement c)) cs)"
    using creators_joined [of cs s] by simp
  show ?thesis
    unfolding Let_def
    by (intro conjI) (rule c1, rule c2, rule c3, rule c4, rule c5, rule c6, rule c7, rule c8,
        rule c9, rule c10, rule c11)
qed

lemmas metadata_inputs = meta_series_def meta_nameless_def dc_date_def dc_title_def
  dc_title_blank_def dc_creator_def opf_other_def

text \<open>Each case on an element of its kind; two creators \<open>A\<close> and \<open>B\<close> give \<open>A; B\<close>.\<close>

theorem parseMetadataItem_classifies_witness:
  "m_metadata (snd (parseMetadataItem meta_series EPubContainer_new)) =
     [''calibre:series'' \<mapsto> ''Saga'']
   \<and> parseMetadataItem meta_nameless EPubContainer_new = (False, EPubContainer_new)
   \<and> m_metadata (snd (parseMetadataItem dc_date EPubContainer_new)) =
     [''publication'' \<mapsto> ''2001-05-01'']
   \<and> m_metadata (snd (parseMetadataItem dc_title EPubContainer_new)) = [''title'' \<mapsto> ''Emma'']
   \<and> parseMetadataItem dc_title_blank EPubContainer_new = (False, EPubContainer_new)
   \<and> parseMetadataItem opf_other EPubContainer_new =
     (False, QLOG_WARN ''Unsupported metadata tag %1'' [''x-info''] EPubContainer_new)
   \<and> m_metadata (snd (parseMetadataItem (dc_creator ''A'') EPubContainer_new)) =
     [''creator'' \<mapsto> ''A'']
   \<and> m_metadata (snd (parseMetadataItem (dc_creator ''B'')
        (setMetadata ''creator'' ''A'' EPubContainer_new))) = [''creator'' \<mapsto> ''A; B'']
   \<and> \<not> fst (parseMetadataItem (dc_creator []) EPubContainer_new)
   \<and> metadata (forEach parseMetadataItem [dc_creator ''A'', dc_creator ''B''] EPubContainer_new)
        ''creator'' = ''A; B''"
proof -
  note ev = metadata_inputs attribute_def Let_def metadata_def value_or_empty_def
    EPubContainer_new_def setMetadata_def
  have "m_metadata (snd (parseMetadataItem meta_series EPubContainer_new)) =
     [''calibre:series'' \<mapsto> ''Saga'']"
    using parseMetadataItem_classifies [where n = meta_series and s = EPubContainer_new and cs = "[]"]
    by (simp add: ev)
  moreover have "parseMetadataItem meta_nameless EPubContainer_new = (False, EPubContainer_new)"
    using parseMetadataItem_classifies [where n = meta_nameless and s = EPubContainer_new and cs = "[]"]
    by (simp add: ev)
  moreover have "m_metadata (snd (parseMetadataItem dc_date EPubContainer_new)) =
     [''publication'' \<mapsto> ''2001-05-01'']"
    using parseMetadataItem_classifies [where n = dc_date and s = EPubContainer_new and cs = "[]"]
    by (simp add: ev)
  moreover have "m_metadata (snd (parseMetadataItem dc_title EPubContainer_new)) =
     [''title'' \<mapsto> ''Emma'']"
    using parseMetadataItem_classifies [where n = dc_title and s = EPubContainer_new and cs = "[]"]
    by (simp add: ev)
  moreover have "parseMetadataItem dc_title_blank EPubContainer_new = (False, EPubContainer_new)"
    using parseMetadataItem_classifies [where n = dc_title_blank and s = EPubContainer_new and cs = "[]"]
    by (simp add: ev)
  moreover have "parseMetadataItem opf_other EPubContainer_new =
     (False, QLOG_WARN ''Unsupported metadata tag %1'' [''x-info''] EPubContainer_new)"
    using parseMetadataItem_classifies [where n = opf_other and s = EPubContainer_new and cs = "[]"]
    by (simp add: ev)
  moreover have "m_metadata (snd (parseMetadataItem (dc_creator ''A'') EPubContainer_new)) =
     [''creator'' \<mapsto> ''A'']"
    using parseMetadataItem_classifies [where n = "dc_creator ''A''" and s = EPubContainer_new
        and cs = "[]"]
    by (simp add: ev)
  moreover have "m_metadata (snd (parseMetadataItem (dc_creator ''B'')
        (setMetadata ''creator'' ''A'' EPubContainer_new))) = [''creator'' \<mapsto> ''A; B'']"
    using parseMetadataItem_classifies [where n = "dc_creator ''B''"
        and s = "setMetadata ''creator'' ''A'' EPubContainer_new" and cs = "[]"]
    by (simp add: ev)
  moreover have "\<not> fst (parseMetadataItem (dc_creator []) EPubContainer_new)"
    using parseMetadataItem_classifies [where n = "dc_creator []" and s = EPubContainer_new
        and cs = "[]"]
    by (simp add: ev)
  moreover have "metadata (forEach parseMetadataItem [dc_creator ''A'', dc_creator ''B'']
        EPubContainer_new) ''creator'' = ''A; B''"
    using parseMetadataItem_classifies [where n = Null and s = EPubContainer_new
        and cs = "[dc_creator ''A'', dc_creator ''B'']"]
    by (simp add: ev)
  ultimately show ?thesis by blast
qed

section \<open>Guide references are classified by the fixed enumeration\<close>

lemma typeFromString_Other: "typeFromString name = Other \<longleftrightarrow> name \<notin> set standardNames"
  unfolding typeFromString_def standardNames_def by (simp split: if_splits)

lemma parseGuideItem_invalid:
  "attribute (toElement n) ''href'' = [] \<or> attribute (toElement n) ''title'' = []
     \<or> attribute (toElement n) ''type'' = [] \<Longrightarrow>
   parseGuideItem n s = (False, QLOG_WARN ''Invalid guide item %1 %2 %3''
     [attribute (toElement n) ''href'', attribute (toElement n) ''title'',
      attribute (toElement n) ''type''] s)"
  unfolding parseGuideItem_def Let_def by simp

lemma parseGuideItem_standard:
  "attribute (toElement n) ''href'' \<noteq> [] \<Longrightarrow> attribute (toElement n) ''title'' \<noteq> [] \<Longrightarrow>
   attribute (toElement n) ''type'' \<noteq> [] \<Longrightarrow>
   typeFromString (attribute (toElement n) ''type'') \<noteq> Other \<Longrightarrow>
   parseGuideItem n s = (True, s\<lparr>m_standardReferences := (m_standardReferences s)
     (typeFromString (attribute (toElement n) ''type'') \<mapsto>
        \<lparr>target = attribute (toElement n) ''href'', title = attribute (toElement n) ''title''\<rparr>)\<rparr>)"
  unfolding parseGuideItem_def Let_def by simp

lemma parseGuideItem_other:
  "attribute (toElement n) ''href'' \<noteq> [] \<Longrightarrow> attribute (toElement n) ''title'' \<noteq> [] \<Longrightarrow>
   attribute (toElement n) ''type'' \<noteq> [] \<Longrightarrow>
   typeFromString (attribute (toElement n) ''type'') = Other \<Longrightarrow>
   parseGuideItem n s = (True, s\<lparr>m_otherReferences := (m_otherReferences s)
     (attribute (toElement n) ''type'' \<mapsto>
        \<lparr>target = attribute (toElement n) ''href'', title = attribute (toElement n) ''title''\<rparr>)\<rparr>)"
  unfolding parseGuideItem_def Let_def by simp

text \<open>
  C6. \<open>parseGuideItem\<close> skips, with a warning, a reference whose \<open>href\<close>, \<open>title\<close> or
  \<open>type\<close> is missing. Otherwise the type string is classified by \<open>typeFromString\<close>:
  each of the seventeen standard names has an enum key of its own (\<open>cover\<close> has
  \<open>CoverPage\<close>, \<open>toc\<close> has \<open>TableOfContents\<close>, and so on down the table), and a
  reference of a standard type is put into \<open>m_standardReferences\<close> under that key,
  replacing what was there and leaving every other key and \<open>m_otherReferences\<close> alone;
  any other string puts it into \<open>m_otherReferences\<close> under that very string and leaves
  \<open>m_standardReferences\<close> alone.
\<close>

theorem parseGuideItem_classifies:
  "(let h = attribute (toElement n) ''href'';
        t = attribute (toElement n) ''title'';
        ty = attribute (toElement n) ''type'';
        reference = \<lparr>target = h, title = t\<rparr>
    in (h = [] \<or> t = [] \<or> ty = [] \<longrightarrow>
          parseGuideItem n s = (False, QLOG_WARN ''Invalid guide item %1 %2 %3'' [h, t, ty] s))
     \<and> (h \<noteq> [] \<and> t \<noteq> [] \<and> ty \<noteq> [] \<and> ty \<in> set standardNames \<longrightarrow>
          typeFromString ty \<noteq> Other \<and>
          parseGuideItem n s = (True, s\<lparr>m_standardReferences :=
             (m_standardReferences s)(typeFromString ty \<mapsto> reference)\<rparr>))
     \<and> (h \<noteq> [] \<and> t \<noteq> [] \<and> ty \<noteq> [] \<and> ty \<notin> set standardNames \<longrightarrow>
          typeFromString ty = Other \<and>
          parseGuideItem n s = (True, s\<lparr>m_otherReferences :=
             (m_otherReferences s)(ty \<mapsto> reference)\<rparr>)))
   \<and> typeFromString ''cover'' = CoverPage
   \<and> standardNames =
       [''cover'', ''title-page'', ''toc'', ''index'', ''glossary'', ''acknowledgements'',
        ''bibliography'', ''colophon'', ''copyright-page'', ''dedication'', ''epigraph'',
        ''foreword'', ''loi'', ''lot'', ''notes'', ''preface'', ''text'']
   \<and> map typeFromString
       [''cover'', ''title-page'', ''toc'', ''index'', ''glossary'', ''acknowledgements'',
        ''bibliography'', ''colophon'', ''copyright-page'', ''dedication'', ''epigraph'',
        ''foreword'', ''loi'', ''lot'', ''notes'', ''preface'', ''text''] =
       [CoverPage, TitlePage, TableOfContents, Index, Glossary, Acknowledgements,
        Bibliography, Colophon, CopyrightPage, Dedication, Epigraph,
        Foreword, ListOfIllustrations, ListOfTables, Notes, Preface, Text]
   \<and> inj_on typeFromString (set standardNames)
   \<and> (typeFromString name = Other) = (name \<notin> set standardNames)"
proof -
  have cover: "typeFromString ''cover'' = CoverPage"
    by (simp add: typeFromString_def)
  have names: "standardNames =
       [''cover'', ''title-page'', ''toc'', ''index'', ''glossary'', ''acknowledgements'',
        ''bibliography'', ''colophon'', ''copyright-page'', ''dedication'', ''epigraph'',
        ''foreword'', ''loi'', ''lot'', ''notes'', ''preface'', ''text'']"
    by (rule standardNames_def)
  have table: "map typeFromString
       [''cover'', ''title-page'', ''toc'', ''index'', ''glossary'', ''acknowledgements'',
        ''bibliography'', ''colophon'', ''copyright-page'', ''dedication'', ''epigraph'',
        ''foreword'', ''loi'', ''lot'', ''notes'', ''preface'', ''text''] =
       [CoverPage, TitlePage, TableOfContents, Index, Glossary, Acknowledgements,
        Bibliography, Colophon, CopyrightPage, Dedication, Epigraph,
        Foreword, ListOfIllustrations, ListOfTables, Notes, Preface, Text]"
    by (simp add: typeFromString_def)
  have "distinct (map typeFromString standardNames)"
    unfolding names table by simp
  then have inj: "inj_on typeFromString (set standardNames)"
    by (simp add: distinct_map)
  have cases: "let h = attribute (toElement n) ''href'';
        t = attribute (toElement n) ''title'';
        ty = attribute (toElement n) ''type'';
        reference = \<lparr>target = h, title = t\<rparr>
    in (h = [] \<or> t = [] \<or> ty = [] \<longrightarrow>
          parseGuideItem n s = (False, QLOG_WARN ''Invalid guide item %1 %2 %3'' [h, t, ty] s))
     \<and> (h \<noteq> [] \<and> t \<noteq> [] \<and> ty \<noteq> [] \<and> ty \<in> set standardNames \<longrightarrow>
          typeFromString ty \<noteq> Other \<and>
          parseGuideItem n s = (True, s\<lparr>m_standardReferences :=
             (m_standardReferences s)(typeFromString ty \<mapsto> reference)\<rparr>))
     \<and> (h \<noteq> [] \<and> t \<noteq> [] \<and> ty \<noteq> [] \<and> ty \<notin> set standardNames \<longrightarrow>
          typeFromString ty = Other \<and>
          parseGuideItem n s = (True, s\<lparr>m_otherReferences :=
             (m_otherReferences s)(ty \<mapsto> reference)\<rparr>))"
    unfolding Let_def
    using parseGuideItem_invalid [of n s] parseGuideItem_standard [of n s]
      parseGuideItem_other [of n s] typeFromString_Other [of "attribute (toElement n) ''type''"]
    by blast
  from cases cover names table inj typeFromString_Other [of name] show ?thesis
    by (intro conjI)
qed

text \<open>
  A cover reference, a reference of an unknown type, one without a title, and a
  \<open>toc\<close> reference read after the cover reference: both stay retrievable, each under
  its own key.
\<close>

theorem parseGuideItem_classifies_witness:
  "parseGuideItem guide_cover EPubContainer_new =
     (True, EPubContainer_new\<lparr>m_standardReferences :=
        [CoverPage \<mapsto> \<lparr>target = ''cover.xhtml'', title = ''Cover''\<rparr>]\<rparr>)
   \<and> parseGuideItem guide_custom EPubContainer_new =
     (True, EPubContainer_new\<lparr>m_otherReferences :=
        [''frontispiece'' \<mapsto> \<lparr>target = ''plate.xhtml'', title = ''Plate''\<rparr>]\<rparr>)
   \<and> parseGuideItem guide_untitled EPubContainer_new =
     (False, QLOG_WARN ''Invalid guide item %1 %2 %3'' [''cover.xhtml'', [], ''cover'']
        EPubContainer_new)
   \<and> m_standardReferences
       (snd (parseGuideItem guide_toc (snd (parseGuideItem guide_cover EPubContainer_new)))) =
     [CoverPage \<mapsto> \<lparr>target = ''cover.xhtml'', title = ''Cover''\<rparr>,
      TableOfContents \<mapsto> \<lparr>target = ''toc.xhtml'', title = ''Contents''\<rparr>]"
proof -
  note ev = guide_cover_def guide_custom_def guide_untitled_def guide_toc_def attribute_def
    Let_def EPubContainer_new_def standardNames_def
  have 1: "parseGuideItem guide_cover EPubContainer_new =
     (True, EPubContainer_new\<lparr>m_standardReferences :=
        [CoverPage \<mapsto> \<lparr>target = ''cover.xhtml'', title = ''Cover''\<rparr>]\<rparr>)"
    using parseGuideItem_classifies [of guide_cover EPubContainer_new "[]"]
    by (simp add: ev)
  have 2: "parseGuideItem guide_custom EPubContainer_new =
     (True, EPubContainer_new\<lparr>m_otherReferences :=
        [''frontispiece'' \<mapsto> \<lparr>target = ''plate.xhtml'', title = ''Plate''\<rparr>]\<rparr>)"
    using parseGuideItem_classifies [of guide_custom EPubContainer_new "[]"]
    by (simp add: ev)
  have 3: "parseGuideItem guide_untitled EPubContainer_new =
     (False, QLOG_WARN ''Invalid guide item %1 %2 %3'' [''cover.xhtml'', [], ''cover'']
        EPubContainer_new)"
    using parseGuideItem_classifies [of guide_untitled EPubContainer_new "[]"]
    by (simp add: ev)
  have 4: "m_standardReferences
       (snd (parseGuideItem guide_toc (snd (parseGuideItem guide_cover EPubContainer_new)))) =
     [CoverPage \<mapsto> \<lparr>target = ''cover.xhtml'', title = ''Cover''\<rparr>,
      TableOfContents \<mapsto> \<lparr>target = ''toc.xhtml'', title = ''Contents''\<rparr>]"
    unfolding 1
    using parseGuideItem_classifies [of guide_toc "EPubContainer_new\<lparr>m_standardReferences :=
        [CoverPage \<mapsto> \<lparr>target = ''cover.xhtml'', title = ''Cover''\<rparr>]\<rparr>" "[]"]
    by (simp add: ev)
  from 1 2 3 4 show ?thesis by (intro conjI)
qed

section \<open>The mimetype stage\<close>

lemma parseMimetype_missing:
  "MIMETYPE_FILE \<notin> set files \<Longrightarrow>
   parseMimetype ar files s = (False, errorHappened ''Unable to find mimetype in file'' [] s)"
  by (simp add: parseMimetype_def)

lemma parseMimetype_mismatch:
  "MIMETYPE_FILE \<in> set files \<Longrightarrow> readAll ar MIMETYPE_FILE = Some mt \<Longrightarrow>
   mt \<noteq> ''application/epub+zip'' \<Longrightarrow>
   parseMimetype ar files s = (True, errorHappened ''Unexpected mimetype %1'' [mt] s)"
  by (simp add: parseMimetype_def)

lemma openFile_after_mimetype:
  "opens ar \<Longrightarrow> getFileNameList ar \<noteq> [] \<Longrightarrow>
   parseMimetype ar (getFileNameList ar) (s\<lparr>m_filename := filename\<rparr>) = (True, s1) \<Longrightarrow>
   openFile setContent ar filename s =
     (case parseContainer setContent ar (getFileNameList ar) s1 of
        (False, s2) \<Rightarrow> Some (False, s2)
      | (True, s2) \<Rightarrow> parseToc setContent ar (getFileNameList ar) s2)"
  by (auto simp: openFile_def Let_def split: prod.splits option.splits bool.splits)

text \<open>
  C4, as the code has it. When the archive has no entry named \<open>mimetype\<close>, \<open>openFile\<close>
  returns failure, raises exactly one \<open>errorHappened\<close> event and changes nothing else
  but the stored file name: no later stage has run. When the entry is there and
  readable but its content is not \<open>application/epub+zip\<close>, \<open>parseMimetype\<close> raises one
  \<open>errorHappened\<close> event (it does not log a warning), still returns success, and
  \<open>openFile\<close> goes on with \<open>parseContainer\<close> and \<open>parseToc\<close> on that state.
\<close>

theorem openFile_mimetype_stage:
  "(MIMETYPE_FILE \<notin> set (getFileNameList ar) \<longrightarrow>
      openFile setContent ar filename s =
        Some (False, s\<lparr>m_filename := filename,
          events := events s @
            [if \<not> opens ar then ErrorHappened ''Failed to open %1'' [filename]
             else if getFileNameList ar = [] then ErrorHappened ''Failed to read %1'' [filename]
             else ErrorHappened ''Unable to find mimetype in file'' []]\<rparr>))
   \<and> (MIMETYPE_FILE \<in> set files \<and> readAll ar MIMETYPE_FILE = Some mt
        \<and> mt \<noteq> ''application/epub+zip'' \<longrightarrow>
      parseMimetype ar files s = (True, errorHappened ''Unexpected mimetype %1'' [mt] s))
   \<and> (opens ar \<and> MIMETYPE_FILE \<in> set (getFileNameList ar)
        \<and> readAll ar MIMETYPE_FILE = Some mt \<and> mt \<noteq> ''application/epub+zip'' \<longrightarrow>
      openFile setContent ar filename s =
        (case parseContainer setContent ar (getFileNameList ar)
                (errorHappened ''Unexpected mimetype %1'' [mt] (s\<lparr>m_filename := filename\<rparr>)) of
           (False, s2) \<Rightarrow> Some (False, s2)
         | (True, s2) \<Rightarrow> parseToc setContent ar (getFileNameList ar) s2))"
proof (intro conjI impI)
  assume "MIMETYPE_FILE \<notin> set (getFileNameList ar)"
  then show "openFile setContent ar filename s =
        Some (False, s\<lparr>m_filename := filename,
          events := events s @
            [if \<not> opens ar then ErrorHappened ''Failed to open %1'' [filename]
             else if getFileNameList ar = [] then ErrorHappened ''Failed to read %1'' [filename]
             else ErrorHappened ''Unable to find mimetype in file'' []]\<rparr>)"
    by (simp add: openFile_def Let_def parseMimetype_missing errorHappened_def)
next
  assume "MIMETYPE_FILE \<in> set files \<and> readAll ar MIMETYPE_FILE = Some mt
        \<and> mt \<noteq> ''application/epub+zip''"
  then show "parseMimetype ar files s = (True, errorHappened ''Unexpected mimetype %1'' [mt] s)"
    by (simp add: parseMimetype_mismatch)
next
  assume a: "opens ar \<and> MIMETYPE_FILE \<in> set (getFileNameList ar)
        \<and> readAll ar MIMETYPE_FILE = Some mt \<and> mt \<noteq> ''application/epub+zip''"
  then have "getFileNameList ar \<noteq> []" by auto
  moreover have "parseMimetype ar (getFileNameList ar) (s\<lparr>m_filename := filename\<rparr>) =
      (True, errorHappened ''Unexpected mimetype %1'' [mt] (s\<lparr>m_filename := filename\<rparr>))"
    using a by (simp add: parseMimetype_mismatch)
  ultimately show "openFile setContent ar filename s =
        (case parseContainer setContent ar (getFileNameList ar)
                (errorHappened ''Unexpected mimetype %1'' [mt] (s\<lparr>m_filename := filename\<rparr>)) of
           (False, s2) \<Rightarrow> Some (False, s2)
         | (True, s2) \<Rightarrow> parseToc setContent ar (getFileNameList ar) s2)"
    using a openFile_after_mimetype by blast
qed

text \<open>
  Without a \<open>mimetype\<close> entry the open fails with one error; with \<open>text/plain\<close> in the
  entry the stage raises its error event and the open still succeeds.
\<close>

theorem openFile_mimetype_stage_witness:
  "openFile example_setContent archive_without_mimetype ''book.epub'' EPubContainer_new =
     Some (False, EPubContainer_new\<lparr>m_filename := ''book.epub'',
       events := [ErrorHappened ''Unable to find mimetype in file'' []]\<rparr>)
   \<and> parseMimetype (example_archive ''text/plain'') (getFileNameList (example_archive ''text/plain''))
        EPubContainer_new =
     (True, errorHappened ''Unexpected mimetype %1'' [''text/plain''] EPubContainer_new)
   \<and> map_option fst (openFile example_setContent (example_archive ''text/plain'') ''book.epub''
        EPubContainer_new) = Some True"
proof -
  have 1: "openFile example_setContent archive_without_mimetype ''book.epub'' EPubContainer_new =
     Some (False, EPubContainer_new\<lparr>m_filename := ''book.epub'',
       events := [ErrorHappened ''Unable to find mimetype in file'' []]\<rparr>)"
    using openFile_mimetype_stage [where ar = archive_without_mimetype
        and setContent = example_setContent and filename = "''book.epub''"
        and s = EPubContainer_new and files = "[]" and mt = "[]"]
    by (simp add: archive_without_mimetype_def MIMETYPE_FILE_def EPubContainer_new_def)
  have 2: "parseMimetype (example_archive ''text/plain'')
        (getFileNameList (example_archive ''text/plain'')) EPubContainer_new =
     (True, errorHappened ''Unexpected mimetype %1'' [''text/plain''] EPubContainer_new)"
    using openFile_mimetype_stage [where ar = "example_archive ''text/plain''"
        and setContent = example_setContent and filename = "''book.epub''"
        and s = EPubContainer_new and files = "getFileNameList (example_archive ''text/plain'')"
        and mt = "''text/plain''"]
    by (simp add: example_archive_def MIMETYPE_FILE_def)
  have toc: "TOC_FILE \<notin> set (getFileNameList (example_archive ''text/plain''))"
    by (simp add: example_archive_def TOC_FILE_def)
  have "openFile example_setContent (example_archive ''text/plain'') ''book.epub''
        EPubContainer_new =
        (case parseContainer example_setContent (example_archive ''text/plain'')
                (getFileNameList (example_archive ''text/plain''))
                (errorHappened ''Unexpected mimetype %1'' [''text/plain'']
                  (EPubContainer_new\<lparr>m_filename := ''book.epub''\<rparr>)) of
           (False, s2) \<Rightarrow> Some (False, s2)
         | (True, s2) \<Rightarrow> parseToc example_setContent (example_archive ''text/plain'')
             (getFileNameList (example_archive ''text/plain'')) s2)"
    using openFile_mimetype_stage [where ar = "example_archive ''text/plain''"
        and setContent = example_setContent and filename = "''book.epub''"
        and s = EPubContainer_new and files = "getFileNameList (example_archive ''text/plain'')"
        and mt = "''text/plain''"]
    by (simp add: example_archive_def MIMETYPE_FILE_def)
  then have 3: "map_option fst (openFile example_setContent (example_archive ''text/plain'')
      ''book.epub'' EPubContainer_new) = Some True"
    using example_archive_container_stage [of "''text/plain''"
        "errorHappened ''Unexpected mimetype %1'' [''text/plain'']
           (EPubContainer_new\<lparr>m_filename := ''book.epub''\<rparr>)"]
    by (simp add: parseToc_absent [OF toc] split: prod.splits bool.splits)
  from 1 2 3 show ?thesis by simp
qed

text \<open>
  The claim as written fails on an archive whose \<open>mimetype\<close> entry holds \<open>text/plain\<close>:
  the one event of the stage is an \<open>errorHappened\<close> event, not a warning.
\<close>

theorem mimetype_mismatch_counterexample:
  "events (snd (parseMimetype (example_archive ''text/plain'')
      (getFileNameList (example_archive ''text/plain'')) EPubContainer_new)) =
     [ErrorHappened ''Unexpected mimetype %1'' [''text/plain'']]"
  by (simp add: parseMimetype_def example_archive_def MIMETYPE_FILE_def errorHappened_def
      EPubContainer_new_def)

section \<open>The container stage\<close>

text \<open>
  C3. \<open>parseContainer\<close> fails with an error when \<open>META-INF/container.xml\<close> is not among
  the entry names (and when the entry does not open). Otherwise it takes the \<open>full-path\<close>
  of every \<open>rootfile\<close> element in document order; an empty one is passed over with a
  warning, one whose entry does not open with the error of \<open>parseContentFile\<close>; at the
  first candidate that parses it returns success with the state that parse left; when
  no candidate does, whatever else the archive holds, it fails with an error.
\<close>

theorem parseContainer_candidates:
  "(CONTAINER_FILE \<notin> set files \<longrightarrow>
      parseContainer setContent ar files s =
        (False, errorHappened ''Unable to find container information'' [] s))
   \<and> (CONTAINER_FILE \<in> set files \<and> readAll ar CONTAINER_FILE = None \<longrightarrow>
      parseContainer setContent ar files s =
        (False, errorHappened ''Unable to open container file error %1'' [] s))
   \<and> (CONTAINER_FILE \<in> set files \<and> readAll ar CONTAINER_FILE = Some c \<longrightarrow>
      (let paths = rootfilePaths (snd (setContent False c));
           s1 = s\<lparr>events := events s @ map skipEvent (takeWhile (\<lambda>p. \<not> usable ar p) paths)\<rparr>
       in case List.find (usable ar) paths of
            Some p \<Rightarrow> fst (parseContainer setContent ar files s)
              \<and> parseContainer setContent ar files s = parseContentFile setContent ar p s1
          | None \<Rightarrow> parseContainer setContent ar files s =
              (False, errorHappened ''Unable to find and use any content files'' [] s1)))"
proof (intro conjI impI)
  assume "CONTAINER_FILE \<notin> set files"
  then show "parseContainer setContent ar files s =
        (False, errorHappened ''Unable to find container information'' [] s)"
    by (simp add: parseContainer_def)
next
  assume "CONTAINER_FILE \<in> set files \<and> readAll ar CONTAINER_FILE = None"
  then show "parseContainer setContent ar files s =
        (False, errorHappened ''Unable to open container file error %1'' [] s)"
    by (simp add: parseContainer_def)
next
  assume "CONTAINER_FILE \<in> set files \<and> readAll ar CONTAINER_FILE = Some c"
  then have eq: "parseContainer setContent ar files s =
     (case List.find (usable ar) (rootfilePaths (snd (setContent False c))) of
        Some p \<Rightarrow> parseContentFile setContent ar p
                   (skipped ar (rootfilePaths (snd (setContent False c))) s)
      | None \<Rightarrow> (False, errorHappened ''Unable to find and use any content files'' []
                   (skipped ar (rootfilePaths (snd (setContent False c))) s)))"
    by (simp add: parseContainer_readable)
  show "let paths = rootfilePaths (snd (setContent False c));
           s1 = s\<lparr>events := events s @ map skipEvent (takeWhile (\<lambda>p. \<not> usable ar p) paths)\<rparr>
       in case List.find (usable ar) paths of
            Some p \<Rightarrow> fst (parseContainer setContent ar files s)
              \<and> parseContainer setContent ar files s = parseContentFile setContent ar p s1
          | None \<Rightarrow> parseContainer setContent ar files s =
              (False, errorHappened ''Unable to find and use any content files'' [] s1)"
  proof (cases "List.find (usable ar) (rootfilePaths (snd (setContent False c)))")
    case None
    with eq show ?thesis by (simp add: skipped_def)
  next
    case (Some p)
    with eq find_usable [OF Some] show ?thesis
      by (simp add: skipped_def parseContentFile_fst)
  qed
qed

text \<open>
  An archive without the container entry, one whose container entry does not open, one
  whose third candidate is the first to open, and one whose only candidate is missing
  although a package document lies elsewhere in the archive.
\<close>

theorem parseContainer_candidates_witness:
  "parseContainer example_setContent (example_archive ''application/epub+zip'') [''mimetype'']
      EPubContainer_new =
     (False, errorHappened ''Unable to find container information'' [] EPubContainer_new)
   \<and> parseContainer example_setContent archive_closed_container
        (getFileNameList archive_closed_container) EPubContainer_new =
     (False, errorHappened ''Unable to open container file error %1'' [] EPubContainer_new)
   \<and> fst (parseContainer example_setContent (example_archive ''application/epub+zip'')
        (getFileNameList (example_archive ''application/epub+zip'')) EPubContainer_new)
   \<and> parseContainer example_setContent (example_archive ''application/epub+zip'')
        (getFileNameList (example_archive ''application/epub+zip'')) EPubContainer_new =
      parseContentFile example_setContent (example_archive ''application/epub+zip'')
        ''OEBPS/content.opf''
        (EPubContainer_new\<lparr>events := [Warn ''Invalid root file entry'' [],
           ErrorHappened ''Malformed metadata, unable to get content metadata path'' []]\<rparr>)
   \<and> parseContainer example_setContent archive_unlisted_package
        (getFileNameList archive_unlisted_package) EPubContainer_new =
     (False, EPubContainer_new\<lparr>events :=
        [ErrorHappened ''Malformed metadata, unable to get content metadata path'' [],
         ErrorHappened ''Unable to find and use any content files'' []]\<rparr>)"
proof -
  note ev = example_inputs example_rootfilePaths CONTAINER_FILE_def usable_def skipEvent_def
    Let_def errorHappened_def EPubContainer_new_def parseContentFile_fst
  have "parseContainer example_setContent (example_archive ''application/epub+zip'') [''mimetype'']
      EPubContainer_new =
     (False, errorHappened ''Unable to find container information'' [] EPubContainer_new)"
    using parseContainer_candidates [where files = "[''mimetype'']" and s = EPubContainer_new
        and setContent = example_setContent and ar = "example_archive ''application/epub+zip''"]
    by (simp add: CONTAINER_FILE_def)
  moreover have "parseContainer example_setContent archive_closed_container
        (getFileNameList archive_closed_container) EPubContainer_new =
     (False, errorHappened ''Unable to open container file error %1'' [] EPubContainer_new)"
    using parseContainer_candidates [where files = "getFileNameList archive_closed_container"
        and s = EPubContainer_new and setContent = example_setContent
        and ar = archive_closed_container]
    by (simp add: CONTAINER_FILE_def archive_closed_container_def)
  moreover have "fst (parseContainer example_setContent (example_archive ''application/epub+zip'')
        (getFileNameList (example_archive ''application/epub+zip'')) EPubContainer_new)
   \<and> parseContainer example_setContent (example_archive ''application/epub+zip'')
        (getFileNameList (example_archive ''application/epub+zip'')) EPubContainer_new =
      parseContentFile example_setContent (example_archive ''application/epub+zip'')
        ''OEBPS/content.opf''
        (EPubContainer_new\<lparr>events := [Warn ''Invalid root file entry'' [],
           ErrorHappened ''Malformed metadata, unable to get content metadata path'' []]\<rparr>)"
    using parseContainer_candidates [where s = EPubContainer_new
        and files = "getFileNameList (example_archive ''application/epub+zip'')"
        and setContent = example_setContent and ar = "example_archive ''application/epub+zip''"
        and c = "''<container/>''"]
    by (simp add: ev)
  moreover have "parseContainer example_setContent archive_unlisted_package
        (getFileNameList archive_unlisted_package) EPubContainer_new =
     (False, EPubContainer_new\<lparr>events :=
        [ErrorHappened ''Malformed metadata, unable to get content metadata path'' [],
         ErrorHappened ''Unable to find and use any content files'' []]\<rparr>)"
    using parseContainer_candidates [where s = EPubContainer_new
        and files = "getFileNameList archive_unlisted_package"
        and setContent = example_setContent and ar = archive_unlisted_package
        and c = "''<container-unresolved/>''"]
    by (simp add: ev)
  ultimately show ?thesis by blast
qed

section \<open>Package documents are accepted whatever they hold\<close>

lemma parseContentFile_no_elements:
  "readAll ar p = Some c \<Longrightarrow> snd (setContent True c) = [] \<Longrightarrow>
   parseContentFile setContent ar p s = (True, s)"
  by (simp add: parseContentFile_readable parseMetadataNodes_def parseManifestNodes_def
      parseSpineNodes_def parseGuideNodes_def elementsByTagName_def)

text \<open>
  C10. \<open>parseContentFile\<close> returns success exactly when the entry at the candidate
  path opens, whatever the entry holds and whatever the XML parser makes of it: when
  the parser leaves an empty document the state is not even touched. So
  \<open>parseContainer\<close> succeeds at the first non-empty candidate whose entry opens.
\<close>

theorem parseContentFile_succeeds_when_entry_opens:
  "fst (parseContentFile setContent ar p s) = (readAll ar p \<noteq> None)
   \<and> (readAll ar p = Some c \<and> snd (setContent True c) = [] \<longrightarrow>
        parseContentFile setContent ar p s = (True, s))
   \<and> (CONTAINER_FILE \<in> set files \<and> readAll ar CONTAINER_FILE = Some container
        \<and> List.find (\<lambda>q. q \<noteq> [] \<and> readAll ar q \<noteq> None)
             (rootfilePaths (snd (setContent False container))) = Some q \<longrightarrow>
        fst (parseContainer setContent ar files s)
        \<and> snd (parseContainer setContent ar files s) =
            snd (parseContentFile setContent ar q
              (skipped ar (rootfilePaths (snd (setContent False container))) s)))"
proof (intro conjI impI)
  show "fst (parseContentFile setContent ar p s) = (readAll ar p \<noteq> None)"
    by (rule parseContentFile_fst)
next
  assume "readAll ar p = Some c \<and> snd (setContent True c) = []"
  then show "parseContentFile setContent ar p s = (True, s)"
    by (simp add: parseContentFile_no_elements)
next
  assume a: "CONTAINER_FILE \<in> set files \<and> readAll ar CONTAINER_FILE = Some container
        \<and> List.find (\<lambda>q. q \<noteq> [] \<and> readAll ar q \<noteq> None)
             (rootfilePaths (snd (setContent False container))) = Some q"
  then have f: "List.find (usable ar) (rootfilePaths (snd (setContent False container))) = Some q"
    by (simp add: usable_def [abs_def])
  then have eq: "parseContainer setContent ar files s = parseContentFile setContent ar q
      (skipped ar (rootfilePaths (snd (setContent False container))) s)"
    using a by (simp add: parseContainer_readable)
  from find_usable [OF f] show "fst (parseContainer setContent ar files s)"
    by (simp add: eq parseContentFile_fst)
  from eq show "snd (parseContainer setContent ar files s) =
            snd (parseContentFile setContent ar q
              (skipped ar (rootfilePaths (snd (setContent False container))) s))"
    by simp
qed

text \<open>
  An archive whose container names \<open>other.opf\<close>, which is not XML, before the real
  package document: the stage succeeds on \<open>other.opf\<close> and the model stays empty.
\<close>

theorem parseContentFile_succeeds_when_entry_opens_witness:
  "fst (parseContentFile example_setContent archive_other_first ''other.opf'' EPubContainer_new)
   \<and> \<not> fst (parseContentFile example_setContent archive_other_first ''missing.opf''
          EPubContainer_new)
   \<and> parseContentFile example_setContent archive_other_first ''other.opf'' EPubContainer_new =
       (True, EPubContainer_new)
   \<and> fst (parseContainer example_setContent archive_other_first
        (getFileNameList archive_other_first) EPubContainer_new)
   \<and> snd (parseContainer example_setContent archive_other_first
        (getFileNameList archive_other_first) EPubContainer_new) = EPubContainer_new"
proof -
  have 1: "fst (parseContentFile example_setContent archive_other_first ''other.opf''
      EPubContainer_new)"
    using parseContentFile_succeeds_when_entry_opens [where setContent = example_setContent
        and ar = archive_other_first and p = "''other.opf''" and s = EPubContainer_new]
    by (simp add: archive_other_first_def)
  have 2: "\<not> fst (parseContentFile example_setContent archive_other_first ''missing.opf''
      EPubContainer_new)"
    using parseContentFile_succeeds_when_entry_opens [where setContent = example_setContent
        and ar = archive_other_first and p = "''missing.opf''" and s = EPubContainer_new]
    by (simp add: archive_other_first_def)
  have 3: "parseContentFile example_setContent archive_other_first ''other.opf'' EPubContainer_new =
       (True, EPubContainer_new)"
    using parseContentFile_succeeds_when_entry_opens [where setContent = example_setContent
        and ar = archive_other_first and p = "''other.opf''" and s = EPubContainer_new
        and c = "''not xml at all''"]
    by (simp add: archive_other_first_def example_setContent_def)
  have "fst (parseContainer example_setContent archive_other_first
        (getFileNameList archive_other_first) EPubContainer_new)
     \<and> snd (parseContainer example_setContent archive_other_first
        (getFileNameList archive_other_first) EPubContainer_new) =
        snd (parseContentFile example_setContent archive_other_first ''other.opf''
          EPubContainer_new)"
    using parseContentFile_succeeds_when_entry_opens [where setContent = example_setContent
        and ar = archive_other_first and s = EPubContainer_new
        and files = "getFileNameList archive_other_first"
        and container = "''<container-other-first/>''" and q = "''other.opf''"]
    by (simp add: archive_other_first_def example_setContent_def example_rootfilePaths
        CONTAINER_FILE_def skipped_def usable_def EPubContainer_new_def)
  with 1 2 3 show ?thesis by simp
qed

section \<open>The reading order\<close>

lemma openFile_reading_order:
  assumes "openFile setContent ar filename EPubContainer_new = Some (True, s')"
  shows "\<exists>container p content.
    readAll ar CONTAINER_FILE = Some container
    \<and> List.find (\<lambda>q. q \<noteq> [] \<and> readAll ar q \<noteq> None)
         (rootfilePaths (snd (setContent False container))) = Some p
    \<and> readAll ar p = Some content
    \<and> dom (m_items s') = manifestIds (snd (setContent True content))
    \<and> m_orderedItems s' =
        filter (\<lambda>r. r \<noteq> [] \<and> r \<in> manifestIds (snd (setContent True content)))
          (map (\<lambda>n. attribute (toElement n) ''idref'')
             (spineItemrefs (snd (setContent True content))))"
proof -
  from openFile_package [OF assms] obtain container p content where
    c: "readAll ar CONTAINER_FILE = Some container" and
    p: "List.find (usable ar) (rootfilePaths (snd (setContent False container))) = Some p" and
    r: "readAll ar p = Some content" and
    items: "m_items s' = manifestMap (contentFileFolder p)
        (manifestItems (snd (setContent True content))) (m_items EPubContainer_new)" and
    ordered: "m_orderedItems s' = m_orderedItems EPubContainer_new @
        resolved (m_items s') (spineItemrefs (snd (setContent True content)))"
    by blast
  let ?d = "snd (setContent True content)"
  have dom: "dom (m_items s') = manifestIds ?d"
    unfolding items manifestMap_dom by (simp add: manifestIds_def EPubContainer_new_def)
  then have "\<And>r. (m_items s' r \<noteq> None) = (r \<in> manifestIds ?d)"
    by (auto simp: dom_def)
  with ordered have "m_orderedItems s' =
      filter (\<lambda>r. r \<noteq> [] \<and> r \<in> manifestIds ?d)
        (map (\<lambda>n. attribute (toElement n) ''idref'') (spineItemrefs ?d))"
    by (simp add: resolved_def idref_def [abs_def] EPubContainer_new_def)
  moreover from p have "List.find (\<lambda>q. q \<noteq> [] \<and> readAll ar q \<noteq> None)
      (rootfilePaths (snd (setContent False container))) = Some p"
    by (simp add: usable_def [abs_def])
  ultimately show ?thesis using c r dom by blast
qed

lemma parseSpineItem_cases:
  "attribute (toElement n) ''idref'' = [] \<Longrightarrow>
     parseSpineItem n s = (False, QLOG_WARN ''Invalid spine item at line %1'' [] s)"
  "attribute (toElement n) ''idref'' \<noteq> [] \<Longrightarrow> m_items s (attribute (toElement n) ''idref'') = None \<Longrightarrow>
     parseSpineItem n s =
       (False, QLOG_WARN ''Unable to find %1 in items'' [attribute (toElement n) ''idref''] s)"
  "attribute (toElement n) ''idref'' \<noteq> [] \<Longrightarrow> m_items s (attribute (toElement n) ''idref'') \<noteq> None \<Longrightarrow>
     parseSpineItem n s =
       (True, s\<lparr>m_unorderedItems := m_unorderedItems s - {attribute (toElement n) ''idref''},
                 m_orderedItems := m_orderedItems s @ [attribute (toElement n) ''idref'']\<rparr>)"
  by (simp_all add: parseSpineItem_def Let_def)

text \<open>
  C1. When \<open>openFile\<close> succeeds on a freshly constructed container, the package
  document used is the one at the first non-empty \<open>rootfile\<close> path whose entry opens;
  the manifest registry holds exactly the ids of its well-formed manifest items, and
  \<open>m_orderedItems\<close> is the sequence of the \<open>idref\<close> attributes of the \<open>itemref\<close>
  elements of its spine, in document order, without those that are empty or name no
  manifest id. An \<open>itemref\<close> of that kind only leaves a warning behind; any other one
  moves its id from the unordered set to the end of the ordered sequence.
\<close>

theorem openFile_orderedItems:
  "(openFile setContent ar filename EPubContainer_new = Some (True, s') \<longrightarrow>
     (\<exists>container p content.
        readAll ar CONTAINER_FILE = Some container
        \<and> List.find (\<lambda>q. q \<noteq> [] \<and> readAll ar q \<noteq> None)
             (rootfilePaths (snd (setContent False container))) = Some p
        \<and> readAll ar p = Some content
        \<and> dom (m_items s') = manifestIds (snd (setContent True content))
        \<and> m_orderedItems s' =
            filter (\<lambda>r. r \<noteq> [] \<and> r \<in> manifestIds (snd (setContent True content)))
              (map (\<lambda>n. attribute (toElement n) ''idref'')
                 (spineItemrefs (snd (setContent True content))))))
   \<and> (attribute (toElement n) ''idref'' = [] \<longrightarrow>
        parseSpineItem n s = (False, QLOG_WARN ''Invalid spine item at line %1'' [] s))
   \<and> (attribute (toElement n) ''idref'' \<noteq> [] \<and> m_items s (attribute (toElement n) ''idref'') = None \<longrightarrow>
        parseSpineItem n s =
          (False, QLOG_WARN ''Unable to find %1 in items'' [attribute (toElement n) ''idref''] s))
   \<and> (attribute (toElement n) ''idref'' \<noteq> [] \<and> m_items s (attribute (toElement n) ''idref'') \<noteq> None \<longrightarrow>
        parseSpineItem n s =
          (True, s\<lparr>m_unorderedItems := m_unorderedItems s - {attribute (toElement n) ''idref''},
                    m_orderedItems := m_orderedItems s @ [attribute (toElement n) ''idref'']\<rparr>))"
  using openFile_reading_order [of setContent ar filename s'] parseSpineItem_cases [of n s]
  by (intro conjI impI) simp_all

text \<open>
  The example archive: the spine names \<open>ch1\<close>, an unknown id, nothing, \<open>ch2\<close> and
  \<open>ch1\<close> again.
\<close>

theorem openFile_orderedItems_witness:
  "(\<exists>s'. openFile example_setContent (example_archive ''application/epub+zip'') ''book.epub''
       EPubContainer_new = Some (True, s')
     \<and> dom (m_items s') = {''ch1'', ''ch2'', ''notes'', ''img''}
     \<and> m_orderedItems s' = [''ch1'', ''ch2'', ''ch1''])
   \<and> parseSpineItem itemref_blank EPubContainer_new =
       (False, QLOG_WARN ''Invalid spine item at line %1'' [] EPubContainer_new)
   \<and> parseSpineItem itemref_ghost EPubContainer_new =
       (False, QLOG_WARN ''Unable to find %1 in items'' [''ghost''] EPubContainer_new)
   \<and> m_orderedItems (snd (parseSpineItem itemref_notes example_parsed)) =
       [''ch1'', ''ch2'', ''ch1'', ''notes'']
   \<and> m_unorderedItems (snd (parseSpineItem itemref_notes example_parsed)) = {}"
proof -
  let ?ar = "example_archive ''application/epub+zip''"
  from example_archive_opens obtain s' where
    o: "openFile example_setContent ?ar ''book.epub'' EPubContainer_new = Some (True, s')"
    by blast
  note inst = openFile_orderedItems [where setContent = example_setContent and ar = ?ar
      and filename = "''book.epub''" and s' = s']
  from inst [where n = Null and s = EPubContainer_new] o obtain container p content where
    c: "readAll ?ar CONTAINER_FILE = Some container" and
    p: "List.find (\<lambda>q. q \<noteq> [] \<and> readAll ?ar q \<noteq> None)
         (rootfilePaths (snd (example_setContent False container))) = Some p" and
    r: "readAll ?ar p = Some content" and
    d: "dom (m_items s') = manifestIds (snd (example_setContent True content))" and
    m: "m_orderedItems s' =
        filter (\<lambda>r. r \<noteq> [] \<and> r \<in> manifestIds (snd (example_setContent True content)))
          (map (\<lambda>n. attribute (toElement n) ''idref'')
             (spineItemrefs (snd (example_setContent True content))))"
    by blast
  from c have "container = ''<container/>''"
    by (simp add: example_archive_def CONTAINER_FILE_def)
  with p have "p = ''OEBPS/content.opf''"
    by (simp add: example_setContent_def example_rootfilePaths example_archive_def)
  with r have "content = ''<package/>''"
    by (simp add: example_archive_def)
  then have doc: "snd (example_setContent True content) = package_doc"
    by (simp add: example_setContent_def)
  have "dom (m_items s') = {''ch1'', ''ch2'', ''notes'', ''img''}"
    using d unfolding doc by (simp add: example_package)
  moreover have "m_orderedItems s' = [''ch1'', ''ch2'', ''ch1'']"
    using m example_package(2) unfolding doc
    by (simp add: example_package(1) idref_def [abs_def])
  ultimately have 1: "\<exists>s'. openFile example_setContent ?ar ''book.epub''
       EPubContainer_new = Some (True, s')
     \<and> dom (m_items s') = {''ch1'', ''ch2'', ''notes'', ''img''}
     \<and> m_orderedItems s' = [''ch1'', ''ch2'', ''ch1'']"
    using o by blast
  have 2: "parseSpineItem itemref_blank EPubContainer_new =
       (False, QLOG_WARN ''Invalid spine item at line %1'' [] EPubContainer_new)"
    using inst [where n = itemref_blank and s = EPubContainer_new]
    by (simp add: itemref_blank_def attribute_def)
  have 3: "parseSpineItem itemref_ghost EPubContainer_new =
       (False, QLOG_WARN ''Unable to find %1 in items'' [''ghost''] EPubContainer_new)"
    using inst [where n = itemref_ghost and s = EPubContainer_new]
    by (simp add: itemref_ghost_def attribute_def EPubContainer_new_def)
  have "''notes'' \<in> dom (m_items example_parsed)"
    unfolding example_parsed_fields(1) by simp
  then have known: "m_items example_parsed ''notes'' \<noteq> None"
    by (simp add: domIff)
  have "parseSpineItem itemref_notes example_parsed =
      (True, example_parsed\<lparr>m_unorderedItems := m_unorderedItems example_parsed - {''notes''},
         m_orderedItems := m_orderedItems example_parsed @ [''notes'']\<rparr>)"
    using inst [where n = itemref_notes and s = example_parsed] known
    by (auto simp: itemref_notes_def attribute_def)
  then have 4: "m_orderedItems (snd (parseSpineItem itemref_notes example_parsed)) =
       [''ch1'', ''ch2'', ''ch1'', ''notes'']"
    "m_unorderedItems (snd (parseSpineItem itemref_notes example_parsed)) = {}"
    by (simp_all add: example_parsed_fields)
  from 1 2 3 4 show ?thesis by (intro conjI)
qed

section \<open>The partition of the manifest ids\<close>




section \<open>Manifest paths\<close>

text \<open>
  C9. For a package document at \<open>d/f\<close> (\<open>d\<close> not empty, no slash in \<open>f\<close>) the folder
  that hrefs are resolved against is \<open>d/\<close>, the path up to and including its last slash;
  \<open>parseManifestItem\<close> stores, under the item's id, the path
  \<open>cleanPath (folder + href)\<close>; so every item that \<open>parseContentFile\<close> registers from
  that document has the path \<open>cleanPath (d/ + href)\<close> of a manifest item with its id,
  and every well-formed manifest item has its id registered. \<open>chap1.xhtml\<close> in
  \<open>OEBPS/content.opf\<close> gives \<open>OEBPS/chap1.xhtml\<close>. (The code takes the folder only when
  the last slash is not the first character: for a path with no slash, or with a
  leading slash only, the folder is empty.)
\<close>

theorem manifest_href_resolved_against_folder:
  "(d \<noteq> [] \<and> CHR ''/'' \<notin> set f \<longrightarrow> contentFileFolder (d @ ''/'' @ f) = d @ ''/'')
   \<and> (CHR ''/'' \<notin> set f \<longrightarrow> contentFileFolder f = [] \<and> contentFileFolder (CHR ''/'' # f) = [])
   \<and> (attribute (toElement n) ''id'' \<noteq> [] \<and> attribute (toElement n) ''href'' \<noteq> [] \<longrightarrow>
        m_items (snd (parseManifestItem n folder s)) (attribute (toElement n) ''id'') =
          Some \<lparr>mimetype = attribute (toElement n) ''media-type'',
                path = cleanPath (folder @ attribute (toElement n) ''href'')\<rparr>)
   \<and> (d \<noteq> [] \<and> CHR ''/'' \<notin> set f \<and> readAll ar (d @ ''/'' @ f) = Some content \<longrightarrow>
        (\<forall>i it. m_items (snd (parseContentFile setContent ar (d @ ''/'' @ f) s)) i = Some it \<longrightarrow>
           m_items s i = Some it \<or>
           (\<exists>m \<in> set (manifestItems (snd (setContent True content))).
              attribute (toElement m) ''id'' = i \<and> attribute (toElement m) ''href'' \<noteq> [] \<and>
              path it = cleanPath (d @ ''/'' @ attribute (toElement m) ''href'')))
        \<and> (\<forall>m \<in> set (manifestItems (snd (setContent True content))).
              attribute (toElement m) ''id'' \<noteq> [] \<and> attribute (toElement m) ''href'' \<noteq> [] \<longrightarrow>
              attribute (toElement m) ''id''
                \<in> dom (m_items (snd (parseContentFile setContent ar (d @ ''/'' @ f) s)))))
   \<and> cleanPath (contentFileFolder ''OEBPS/content.opf'' @ ''chap1.xhtml'') = ''OEBPS/chap1.xhtml''"
proof (intro conjI impI)
  assume "d \<noteq> [] \<and> CHR ''/'' \<notin> set f"
  then show "contentFileFolder (d @ ''/'' @ f) = d @ ''/''"
    using contentFileFolder_directory [of d f] by simp
next
  assume "CHR ''/'' \<notin> set f"
  then show "contentFileFolder f = []" "contentFileFolder (CHR ''/'' # f) = []"
    by (rule contentFileFolder_root)+
next
  assume "attribute (toElement n) ''id'' \<noteq> [] \<and> attribute (toElement n) ''href'' \<noteq> []"
  then have "validItem n" by (simp add: validItem_def)
  from parseManifestItem_valid(1) [OF this, of folder s]
  show "m_items (snd (parseManifestItem n folder s)) (attribute (toElement n) ''id'') =
          Some \<lparr>mimetype = attribute (toElement n) ''media-type'',
                path = cleanPath (folder @ attribute (toElement n) ''href'')\<rparr>"
    by (simp add: itemOf_def)
next
  assume a: "d \<noteq> [] \<and> CHR ''/'' \<notin> set f \<and> readAll ar (d @ ''/'' @ f) = Some content"
  let ?ms = "manifestItems (snd (setContent True content))"
  have folder: "contentFileFolder (d @ ''/'' @ f) = d @ ''/''"
    using a contentFileFolder_directory [of d f] by simp
  have items: "m_items (snd (parseContentFile setContent ar (d @ ''/'' @ f) s)) =
      manifestMap (d @ ''/'') ?ms (m_items s)"
    using parseContentFile_fields(1) [of ar "d @ ''/'' @ f" content setContent s] a folder
    by simp
  show "\<forall>i it. m_items (snd (parseContentFile setContent ar (d @ ''/'' @ f) s)) i = Some it \<longrightarrow>
           m_items s i = Some it \<or>
           (\<exists>m \<in> set ?ms.
              attribute (toElement m) ''id'' = i \<and> attribute (toElement m) ''href'' \<noteq> [] \<and>
              path it = cleanPath (d @ ''/'' @ attribute (toElement m) ''href''))"
  proof (intro allI impI)
    fix i it
    assume "m_items (snd (parseContentFile setContent ar (d @ ''/'' @ f) s)) i = Some it"
    then have "manifestMap (d @ ''/'') ?ms (m_items s) i = Some it"
      by (simp only: items)
    from manifestMap_lookup [OF this]
    show "m_items s i = Some it \<or>
           (\<exists>m \<in> set ?ms.
              attribute (toElement m) ''id'' = i \<and> attribute (toElement m) ''href'' \<noteq> [] \<and>
              path it = cleanPath (d @ ''/'' @ attribute (toElement m) ''href''))"
      by (auto simp: itemOf_def validItem_def)
  qed
  show "\<forall>m \<in> set ?ms.
          attribute (toElement m) ''id'' \<noteq> [] \<and> attribute (toElement m) ''href'' \<noteq> [] \<longrightarrow>
          attribute (toElement m) ''id''
            \<in> dom (m_items (snd (parseContentFile setContent ar (d @ ''/'' @ f) s)))"
    unfolding items manifestMap_dom by (auto simp: validItem_def)
next
  show "cleanPath (contentFileFolder ''OEBPS/content.opf'' @ ''chap1.xhtml'') = ''OEBPS/chap1.xhtml''"
    by (simp add: contentFileFolder_def left_def cleanPath_def normSegment_def)
qed

text \<open>
  The example package document at \<open>OEBPS/content.opf\<close>: \<open>chap1.xhtml\<close> is registered as
  \<open>OEBPS/chap1.xhtml\<close> and \<open>text/../chap2.xhtml\<close> as \<open>OEBPS/chap2.xhtml\<close>; a package
  document at the top of the archive has the empty folder.
\<close>

theorem manifest_href_resolved_against_folder_witness:
  "contentFileFolder ''OEBPS/content.opf'' = ''OEBPS/''
   \<and> contentFileFolder ''content.opf'' = []
   \<and> m_items (snd (parseManifestItem item_ch1 ''OEBPS/'' EPubContainer_new)) ''ch1'' =
       Some \<lparr>mimetype = ''application/xhtml+xml'', path = ''OEBPS/chap1.xhtml''\<rparr>
   \<and> map_option path (m_items example_parsed ''ch1'') = Some ''OEBPS/chap1.xhtml''
   \<and> map_option path (m_items example_parsed ''ch2'') = Some ''OEBPS/chap2.xhtml''"
proof -
  note inst = manifest_href_resolved_against_folder [where d = "''OEBPS''" and f = "''content.opf''"
      and n = item_ch1 and folder = "''OEBPS/''" and s = EPubContainer_new
      and ar = "example_archive ''application/epub+zip''" and content = "''<package/>''"
      and setContent = example_setContent]
  have 1: "contentFileFolder ''OEBPS/content.opf'' = ''OEBPS/''"
    using inst by simp
  have 2: "contentFileFolder ''content.opf'' = []"
    using inst by simp
  have 3: "m_items (snd (parseManifestItem item_ch1 ''OEBPS/'' EPubContainer_new)) ''ch1'' =
       Some \<lparr>mimetype = ''application/xhtml+xml'', path = ''OEBPS/chap1.xhtml''\<rparr>"
    using inst by (simp add: item_ch1_def attribute_def cleanPath_def normSegment_def)
  have d: "snd (example_setContent True ''<package/>'') = package_doc"
    by (simp add: example_setContent_def)
  have all: "\<forall>i it. m_items example_parsed i = Some it \<longrightarrow>
      (\<exists>m \<in> set (manifestItems package_doc).
         attribute (toElement m) ''id'' = i \<and> attribute (toElement m) ''href'' \<noteq> [] \<and>
         path it = cleanPath (''OEBPS/'' @ attribute (toElement m) ''href''))"
    using inst unfolding d
    by (simp add: example_archive_def example_parsed_def EPubContainer_new_def)
  have paths: "m_items example_parsed i = Some it \<Longrightarrow>
      (i = ''ch1'' \<longrightarrow> path it = ''OEBPS/chap1.xhtml'') \<and>
      (i = ''ch2'' \<longrightarrow> path it = ''OEBPS/chap2.xhtml'')" for i it
    using all [rule_format, of i it]
    by (auto simp: manifestItems_def elementsByTagName_def package_doc_def attribute_def
        cleanPath_def normSegment_def)
  have "''ch1'' \<in> dom (m_items example_parsed)" "''ch2'' \<in> dom (m_items example_parsed)"
    unfolding example_parsed_fields(1) by simp_all
  then obtain it1 it2 where "m_items example_parsed ''ch1'' = Some it1"
    "m_items example_parsed ''ch2'' = Some it2"
    by (auto simp: dom_def)
  with paths [of "''ch1''" it1] paths [of "''ch2''" it2]
  have "map_option path (m_items example_parsed ''ch1'') = Some ''OEBPS/chap1.xhtml''"
    "map_option path (m_items example_parsed ''ch2'') = Some ''OEBPS/chap2.xhtml''"
    by simp_all
  with 1 2 3 show ?thesis by simp
qed

section \<open>The table of contents\<close>


text \<open>
  C7. The claim asks for the pair of every \<open>meta\<close> element of \<open>head\<close>. On a table of
  contents whose \<open>head\<close> holds two \<open>meta\<close> elements, \<open>dtb:uid\<close> and \<open>dtb:depth\<close>,
  \<open>parseToc\<close> stores the first pair only: after the first round the loop asks for
  \<open>head.nextSiblingElement("navPoint")\<close>, which is null, and stops. (Were there such a
  sibling, the loop would not end.)
\<close>

theorem parseToc_stores_first_meta_only:
  "map_option (\<lambda>r. (fst r, metadata_toc (m_toc (snd r)) ''dtb:uid'',
       metadata_toc (m_toc (snd r)) ''dtb:depth''))
     (parseToc example_setContent archive_with_toc (getFileNameList archive_with_toc)
        EPubContainer_new)
   = Some (True, Some ''urn:uuid:1'', None)"
  by (simp add: example_toc EPubContainer_new_def EPubToc_new_def)










end
